theory Spec2Isabelle
  imports Complex_Main "HOL-Library.Product_Lexorder"
begin

section \<open>Data model\<close>

text \<open>
  The repository is JavaScript. In the first part of this development a
  JavaScript number is a \<^typ>\<open>real\<close> and arithmetic is exact: it serves the
  properties that do not depend on rounding (the fallback analysis, the handling of
  the spike threshold, the two aligners, whose timestamps are integers of
  milliseconds, the symmetry of the correlation and the skipping of entries), on
  series of finite numbers. The functions whose results depend on the rounding or
  on the overflow of double-precision arithmetic (\<open>detectTrends\<close>, \<open>detectSpikes\<close>,
  \<open>calculateCorrelation\<close> and the metadata and normalization steps of the
  canonicalizers) are modelled further down on IEEE 754 doubles, with \<open>NaN\<close> and
  the infinities; there the functions of the first part carry the suffix \<open>64\<close>. A
  parameter of a function that may be \<open>null\<close> or \<open>undefined\<close> is an \<open>option\<close>
  (\<open>None\<close> for a missing value).

  \<open>DataPoint\<close>: \<open>{ timestamp, value, originalValue, label }\<close>.
\<close>

record DataPoint =
  dp_timestamp :: real
  dp_value :: real
  dp_originalValue :: real
  dp_label :: string

text \<open>\<open>SeriesMetadata\<close>: \<open>{ unit, min, max, mean, count }\<close>.\<close>

record SeriesMetadata =
  md_unit :: string
  md_min :: real
  md_max :: real
  md_mean :: real
  md_count :: nat

text \<open>\<open>TimeSeries\<close>: \<open>{ sourceName, dataPoints, metadata }\<close>.\<close>

record TimeSeries =
  sourceName :: string
  dataPoints :: "DataPoint list"
  metadata :: SeriesMetadata



section \<open>DataNormalizer: helpers\<close>


section \<open>DataNormalizer.alignTimeSeriesByTimestamp\<close>

text \<open>
  \<open>minDiff\<close> starts at \<open>Infinity\<close>, which is \<open>None\<close> here; \<open>diff < minDiff\<close>
  is then true for every (finite) \<open>diff\<close>.
\<close>

definition lessMinDiff :: "real \<Rightarrow> real option \<Rightarrow> bool" where
  "lessMinDiff diff minDiff = (case minDiff of None \<Rightarrow> True | Some m \<Rightarrow> diff < m)"

text \<open>
  The inner loop \<open>for (const point2 of points2)\<close>; the state is the pair of the
  variables \<open>closestPoint\<close> (initially \<open>null\<close>) and \<open>minDiff\<close>.
\<close>

fun closestScan ::
  "DataPoint \<Rightarrow> real \<Rightarrow> DataPoint list \<Rightarrow> DataPoint option \<times> real option
     \<Rightarrow> DataPoint option \<times> real option" where
  "closestScan point1 toleranceMs [] st = st"
| "closestScan point1 toleranceMs (point2 # rest) (closestPoint, minDiff) =
     (let diff = \<bar>dp_timestamp point1 - dp_timestamp point2\<bar> in
      if lessMinDiff diff minDiff \<and> diff \<le> toleranceMs
      then closestScan point1 toleranceMs rest (Some point2, Some diff)
      else closestScan point1 toleranceMs rest (closestPoint, minDiff))"



section \<open>InsightEngine: data\<close>

text \<open>The object pushed by \<open>InsightEngine.alignDataPoints\<close>: \<open>{ timestamp, value1, value2 }\<close>.\<close>

record EnginePair =
  ep_timestamp :: real
  ep_value1 :: real
  ep_value2 :: real

text \<open>\<open>Spike\<close>: \<open>{ source, timestamp, value, percentChange, zScore }\<close>.\<close>

record Spike =
  sp_source :: string
  sp_timestamp :: real
  sp_value :: real
  percentChange :: real
  zScore :: real

text \<open>The correlation object \<open>{ coefficient, strength, direction }\<close>.\<close>

record Correlation =
  coefficient :: real
  strength :: string
  direction :: string

record Trends =
  source1 :: string
  source2 :: string

text \<open>\<open>InsightResult\<close>: \<open>{ trends, spikes, correlation, summary }\<close>.\<close>

record InsightResult =
  trends :: Trends
  spikes :: "Spike list"
  correlation :: Correlation
  summary :: string

text \<open>
  A JavaScript value passed where a number is expected: the \<open>spikeThreshold\<close> option
  of the constructor and the \<open>threshold\<close> argument of \<open>detectSpikes\<close>. An omitted
  argument or property reads as \<open>undefined\<close>.
\<close>

datatype JsNumber = JsUndefined | JsNull | JsNaN | JsNum real

text \<open>Truthiness on that type: \<open>undefined\<close>, \<open>null\<close>, \<open>NaN\<close> and \<open>0\<close> are falsy.\<close>

definition truthy :: "JsNumber \<Rightarrow> bool" where
  "truthy v = (case v of JsNum r \<Rightarrow> r \<noteq> 0 | _ \<Rightarrow> False)"

text \<open>
  \<open>z > threshold\<close> for a number \<open>z\<close>: \<open>null\<close> is converted to \<open>0\<close>, and a
  comparison with \<open>NaN\<close> (to which \<open>undefined\<close> is converted) is false.
\<close>

definition greaterThan :: "real \<Rightarrow> JsNumber \<Rightarrow> bool" where
  "greaterThan z threshold =
     (case threshold of JsNum r \<Rightarrow> z > r | JsNull \<Rightarrow> z > 0 | JsNaN \<Rightarrow> False
      | JsUndefined \<Rightarrow> False)"

text \<open>The engine object; its only field is \<open>this.spikeThreshold\<close>.\<close>

record InsightEngine =
  spikeThreshold :: JsNumber

text \<open>
  Built-ins of the JavaScript host that render text, taken as parameters:
  \<open>new Date(t).toLocaleDateString()\<close> and \<open>new Date(t).toLocaleString()\<close> for a
  number \<open>t\<close>, and the conversion of a number to a string inside a template literal.
\<close>

record Host =
  toLocaleDateString :: "real \<Rightarrow> string"
  toLocaleString :: "real \<Rightarrow> string"
  numberToString :: "real \<Rightarrow> string"

text \<open>\<open>Math.round\<close>: the nearest integer, a tie going up.\<close>

definition Math_round :: "real \<Rightarrow> real" where
  "Math_round x = of_int \<lfloor>x + 1 / 2\<rfloor>"

section \<open>InsightEngine: constructor and fallback\<close>

text \<open>\<open>constructor(options = {})\<close>: \<open>this.spikeThreshold = options.spikeThreshold || 1.5\<close>.\<close>

definition constructor :: "JsNumber \<Rightarrow> InsightEngine" where
  "constructor options_spikeThreshold =
     \<lparr> spikeThreshold =
         (if truthy options_spikeThreshold then options_spikeThreshold else JsNum 1.5) \<rparr>"

definition createEmptyAnalysis :: InsightResult where
  "createEmptyAnalysis =
     \<lparr> trends = \<lparr> source1 = ''stable'', source2 = ''stable'' \<rparr>,
       spikes = [],
       correlation = \<lparr> coefficient = 0, strength = ''none'', direction = ''none'' \<rparr>,
       summary = ''Insufficient data to generate insights.'' \<rparr>"

section \<open>InsightEngine.detectTrends\<close>

text \<open>
  The body of the loop \<open>for (let i = 0; i < n; i++)\<close> on the state
  \<open>(sumX, sumY, sumXY, sumX2)\<close>.
\<close>

definition trendStep ::
  "DataPoint list \<Rightarrow> nat \<Rightarrow> real \<times> real \<times> real \<times> real \<Rightarrow> real \<times> real \<times> real \<times> real" where
  "trendStep dps i st =
     (case st of (sumX, sumY, sumXY, sumX2) \<Rightarrow>
        let x = real i; y = dp_value (dps ! i)
        in (sumX + x, sumY + y, sumXY + x * y, sumX2 + x * x))"

definition detectTrends :: "TimeSeries option \<Rightarrow> string" where
  "detectTrends series =
     (case series of
        None \<Rightarrow> ''stable''
      | Some s \<Rightarrow>
          if length (dataPoints s) < 2 then ''stable''
          else
            let dps = dataPoints s;
                n = length dps
            in case fold (trendStep dps) [0..<n] (0, 0, 0, 0) of
                 (sumX, sumY, sumXY, sumX2) \<Rightarrow>
                   let slope = (real n * sumXY - sumX * sumY) / (real n * sumX2 - sumX * sumX);
                       meanValue = sumY / real n;
                       normalizedSlope = (if meanValue \<noteq> 0 then slope / meanValue else slope);
                       threshold = 0.01
                   in if normalizedSlope > threshold then ''increasing''
                      else if normalizedSlope < - threshold then ''decreasing''
                      else ''stable'')"

section \<open>InsightEngine.detectSpikes\<close>

text \<open>
  The body of the loop over the interior indices: the spike pushed at index \<open>i\<close>,
  if any.
\<close>

definition spikeAt :: "TimeSeries \<Rightarrow> JsNumber \<Rightarrow> real \<Rightarrow> real \<Rightarrow> nat \<Rightarrow> Spike option" where
  "spikeAt s threshold mean stdDev i =
     (let dps = dataPoints s;
          currentValue = dp_value (dps ! i);
          prevValue = dp_value (dps ! (i - 1));
          nextValue = dp_value (dps ! (i + 1));
          zScore = \<bar>(currentValue - mean) / stdDev\<bar>
      in if greaterThan zScore threshold then
           let isLocalMax = (currentValue > prevValue \<and> currentValue > nextValue);
               isLocalMin = (currentValue < prevValue \<and> currentValue < nextValue)
           in if isLocalMax \<or> isLocalMin then
                let percentChange =
                      (if prevValue \<noteq> 0
                       then ((currentValue - prevValue) / \<bar>prevValue\<bar>) * 100
                       else 0)
                in Some \<lparr> sp_source = sourceName s,
                          sp_timestamp = dp_timestamp (dps ! i),
                          sp_value = dp_originalValue (dps ! i),
                          percentChange = Math_round (percentChange * 100) / 100,
                          zScore = Math_round (zScore * 100) / 100 \<rparr>
              else None
         else None)"

text \<open>
  \<open>detectSpikes(series, threshold = 1.5)\<close>: the default replaces an \<open>undefined\<close>
  argument only. The loop is \<open>for (let i = 1; i < dataPoints.length - 1; i++)\<close>; it
  is reached with at least three points.
\<close>

definition detectSpikes :: "TimeSeries option \<Rightarrow> JsNumber \<Rightarrow> Spike list" where
  "detectSpikes series thresholdArg =
     (let threshold = (case thresholdArg of JsUndefined \<Rightarrow> JsNum 1.5 | t \<Rightarrow> t)
      in case series of
           None \<Rightarrow> []
         | Some s \<Rightarrow>
             if length (dataPoints s) < 3 then []
             else
               let dps = dataPoints s;
                   vals = map dp_value dps;
                   mean = fold (\<lambda>val sum. sum + val) vals 0 / real (length vals);
                   variance =
                     fold (\<lambda>val sum. sum + (val - mean) ^ 2) vals 0 / real (length vals);
                   stdDev = sqrt variance
               in if stdDev < 0.0001 then []
                  else fold (\<lambda>i spikes. case spikeAt s threshold mean stdDev i of
                                          None \<Rightarrow> spikes
                                        | Some sp \<Rightarrow> spikes @ [sp])
                         [1..<length dps - 1] [])"

section \<open>InsightEngine.calculateCorrelation\<close>

text \<open>
  \<open>alignDataPoints(dataPoints1, dataPoints2)\<close>, with \<open>toleranceMs = 3600000\<close>. Its
  inner loop is the text of the inner loop of \<open>alignTimeSeriesByTimestamp\<close>, so
  \<open>closestScan\<close> stands for both.
\<close>

fun alignDataPointsLoop ::
  "DataPoint list \<Rightarrow> DataPoint list \<Rightarrow> EnginePair list \<Rightarrow> EnginePair list" where
  "alignDataPointsLoop [] dataPoints2 aligned = aligned"
| "alignDataPointsLoop (point1 # rest) dataPoints2 aligned =
     (case fst (closestScan point1 3600000 dataPoints2 (None, None)) of
        None \<Rightarrow> alignDataPointsLoop rest dataPoints2 aligned
      | Some closestPoint \<Rightarrow>
          alignDataPointsLoop rest dataPoints2
            (aligned @ [\<lparr> ep_timestamp = dp_timestamp point1,
                          ep_value1 = dp_value point1,
                          ep_value2 = dp_value closestPoint \<rparr>]))"

definition alignDataPoints :: "DataPoint list \<Rightarrow> DataPoint list \<Rightarrow> EnginePair list" where
  "alignDataPoints dataPoints1 dataPoints2 = alignDataPointsLoop dataPoints1 dataPoints2 []"

text \<open>
  The body of the loop \<open>for (let i = 0; i < n; i++)\<close> on the state
  \<open>(numerator, sumSq1, sumSq2)\<close>.
\<close>

definition pearsonStep ::
  "real list \<Rightarrow> real list \<Rightarrow> real \<Rightarrow> real \<Rightarrow> nat \<Rightarrow> real \<times> real \<times> real \<Rightarrow> real \<times> real \<times> real" where
  "pearsonStep values1 values2 mean1 mean2 i st =
     (case st of (numerator, sumSq1, sumSq2) \<Rightarrow>
        let diff1 = values1 ! i - mean1;
            diff2 = values2 ! i - mean2
        in (numerator + diff1 * diff2, sumSq1 + diff1 * diff1, sumSq2 + diff2 * diff2))"

text \<open>
  The part of \<open>calculateCorrelation\<close> after the alignment, from the aligned pairs
  to the returned object.
\<close>

definition correlationOfPairs :: "EnginePair list \<Rightarrow> Correlation" where
  "correlationOfPairs pairs =
     (if length pairs < 2
      then \<lparr> coefficient = 0, strength = ''none'', direction = ''none'' \<rparr>
      else
        let values1 = map ep_value1 pairs;
            values2 = map ep_value2 pairs;
            n = length values1;
            mean1 = fold (\<lambda>val sum. sum + val) values1 0 / real n;
            mean2 = fold (\<lambda>val sum. sum + val) values2 0 / real n
        in case fold (pearsonStep values1 values2 mean1 mean2) [0..<n] (0, 0, 0) of
             (numerator, sumSq1, sumSq2) \<Rightarrow>
               let denominator = sqrt (sumSq1 * sumSq2);
                   coeff = (if denominator \<noteq> 0 then numerator / denominator else 0);
                   absCoeff = \<bar>coeff\<bar>;
                   strengthText =
                     (if absCoeff \<ge> 0.7 then ''strong''
                      else if absCoeff \<ge> 0.4 then ''moderate''
                      else if absCoeff \<ge> 0.1 then ''weak''
                      else ''none'');
                   directionText =
                     (if coeff > 0.1 then ''positive''
                      else if coeff < - 0.1 then ''negative''
                      else ''none'')
               in \<lparr> coefficient = Math_round (coeff * 1000) / 1000,
                     strength = strengthText,
                     direction = directionText \<rparr>)"

definition calculateCorrelation :: "TimeSeries option \<Rightarrow> TimeSeries option \<Rightarrow> Correlation" where
  "calculateCorrelation series1 series2 =
     (case (series1, series2) of
        (Some s1, Some s2) \<Rightarrow>
          if length (dataPoints s1) = 0 \<or> length (dataPoints s2) = 0
          then \<lparr> coefficient = 0, strength = ''none'', direction = ''none'' \<rparr>
          else correlationOfPairs (alignDataPoints (dataPoints s1) (dataPoints s2))
      | _ \<Rightarrow> \<lparr> coefficient = 0, strength = ''none'', direction = ''none'' \<rparr>)"

section \<open>InsightEngine: summary text and analyzeData\<close>

text \<open>\<open>Array.prototype.join\<close> on strings.\<close>

fun join :: "string \<Rightarrow> string list \<Rightarrow> string" where
  "join sep [] = ''''"
| "join sep [x] = x"
| "join sep (x # y # ys) = x @ sep @ join sep (y # ys)"

text \<open>\<open>series.sourceName || fallback\<close>: the empty string is falsy.\<close>

definition nameOr :: "TimeSeries \<Rightarrow> string \<Rightarrow> string" where
  "nameOr series fallback = (if sourceName series = '''' then fallback else sourceName series)"

definition generateTrendInsight :: "TimeSeries \<Rightarrow> TimeSeries \<Rightarrow> Trends \<Rightarrow> string" where
  "generateTrendInsight series1 series2 trs =
     (let name1 = nameOr series1 ''First dataset'';
          name2 = nameOr series2 ''Second dataset'';
          trend1 = source1 trs;
          trend2 = source2 trs
      in if trend1 = ''stable'' \<and> trend2 = ''stable''
         then ''Both '' @ name1 @ '' and '' @ name2 @
              '' show stable patterns over the observed period.''
         else
           let parts = (if trend1 \<noteq> ''stable'' then [name1 @ '' is '' @ trend1] else []) @
                       (if trend2 \<noteq> ''stable'' then [name2 @ '' is '' @ trend2] else [])
           in if length parts = 0 then '''' else join '', while '' parts @ ''.'')"

text \<open>
  \<open>generateSpikeInsight(spikes)\<close>. \<open>Array.prototype.sort\<close> is stable, and the
  comparator orders by decreasing \<open>|percentChange|\<close>: it is \<open>sort_key\<close> on the
  negated magnitude. \<open>sortedSpikes[0]\<close> is read on a non-empty array only.
\<close>

definition generateSpikeInsight :: "Host \<Rightarrow> Spike list \<Rightarrow> string" where
  "generateSpikeInsight host spks =
     (if length spks = 0 then ''''
      else
        let sortedSpikes = sort_key (\<lambda>sp. - \<bar>percentChange sp\<bar>) spks;
            topSpike = sortedSpikes ! 0;
            date = toLocaleDateString host (sp_timestamp topSpike);
            dir = (if percentChange topSpike > 0 then ''spike'' else ''drop'');
            absChange = \<bar>percentChange topSpike\<bar>
        in if length spks = 1
           then ''A notable '' @ dir @ '' of '' @ numberToString host absChange @
                ''% was detected in '' @ sp_source topSpike @ '' on '' @ date @ ''.''
           else ''Notable fluctuations were detected, including a '' @
                numberToString host absChange @ ''% '' @ dir @ '' in '' @
                sp_source topSpike @ '' on '' @ date @ ''.'')"

definition generateCorrelationInsight ::
  "Host \<Rightarrow> TimeSeries \<Rightarrow> TimeSeries \<Rightarrow> Correlation \<Rightarrow> string" where
  "generateCorrelationInsight host series1 series2 corr =
     (let name1 = nameOr series1 ''First dataset'';
          name2 = nameOr series2 ''Second dataset''
      in if strength corr = ''none''
         then ''No significant correlation was found between '' @ name1 @ '' and '' @
              name2 @ ''.''
         else
           let strengthText = strength corr;
               directionText = (if direction corr = ''positive'' then ''positive''
                                else ''negative'')
           in ''A '' @ strengthText @ '' '' @ directionText @ '' correlation (r='' @
              numberToString host (coefficient corr) @ '') exists between '' @ name1 @
              '' and '' @ name2 @ ''.'')"

text \<open>
  \<open>generateInsightText(analysis)\<close>; the fields of \<open>analysis\<close> are the arguments.
\<close>

definition generateInsightText ::
  "Host \<Rightarrow> TimeSeries option \<Rightarrow> TimeSeries option \<Rightarrow> Trends \<Rightarrow> Spike list \<Rightarrow> Correlation
     \<Rightarrow> string" where
  "generateInsightText host series1 series2 trs spks corr =
     (case (series1, series2) of
        (Some s1, Some s2) \<Rightarrow>
          let trendText = generateTrendInsight s1 s2 trs;
              insights1 = (if trendText \<noteq> '''' then [trendText] else []);
              spikeText = generateSpikeInsight host spks;
              insights2 = (if spikeText \<noteq> '''' then insights1 @ [spikeText] else insights1);
              correlationText = generateCorrelationInsight host s1 s2 corr;
              insights3 = (if correlationText \<noteq> '''' then insights2 @ [correlationText]
                           else insights2)
          in if length insights3 = 0
             then ''The data shows stable patterns with no significant trends or correlations detected.''
             else join '' '' insights3
      | _ \<Rightarrow> ''Insufficient data to generate insights.'')"

definition analyzeData ::
  "InsightEngine \<Rightarrow> Host \<Rightarrow> TimeSeries option \<Rightarrow> TimeSeries option \<Rightarrow> InsightResult" where
  "analyzeData this host series1 series2 =
     (case (series1, series2) of
        (Some s1, Some s2) \<Rightarrow>
          let trend1 = detectTrends series1;
              trend2 = detectTrends series2;
              spikes1 = detectSpikes series1 (spikeThreshold this);
              spikes2 = detectSpikes series2 (spikeThreshold this);
              corr = calculateCorrelation series1 series2;
              summaryText = generateInsightText host series1 series2
                       \<lparr> source1 = trend1, source2 = trend2 \<rparr> (spikes1 @ spikes2) corr
          in \<lparr> trends = \<lparr> source1 = trend1, source2 = trend2 \<rparr>,
                spikes = spikes1 @ spikes2,
                correlation = corr,
                summary = summaryText \<rparr>
      | _ \<Rightarrow> createEmptyAnalysis)"

section \<open>DataNormalizer: raw payloads\<close>

text \<open>
  A raw payload is a deserialized JSON document: \<open>null\<close>, a boolean, a (finite)
  number, a string, an array or an object with its own properties in order.
  \<open>undefined\<close> is what reading an absent property gives.
\<close>

datatype JsValue =
    JUndefined
  | JNull
  | JBool bool
  | JNumber real
  | JString string
  | JArray "JsValue list"
  | JObject "(string \<times> JsValue) list"

text \<open>Truthiness: \<open>undefined\<close>, \<open>null\<close>, \<open>false\<close>, \<open>0\<close> and \<open>""\<close> are falsy.\<close>

fun truthyValue :: "JsValue \<Rightarrow> bool" where
  "truthyValue JUndefined = False"
| "truthyValue JNull = False"
| "truthyValue (JBool b) = b"
| "truthyValue (JNumber r) = (r \<noteq> 0)"
| "truthyValue (JString s) = (s \<noteq> '''')"
| "truthyValue (JArray xs) = True"
| "truthyValue (JObject props) = True"

text \<open>
  \<open>v.key\<close> for the property names the source reads (\<open>prices\<close> here): a value
  that is not an object has none of them. The source reads a property only of a
  value it has found truthy, so the \<open>TypeError\<close> of a read on \<open>null\<close> or
  \<open>undefined\<close> is never raised.
\<close>

fun getProp :: "JsValue \<Rightarrow> string \<Rightarrow> JsValue" where
  "getProp (JObject props) key = (case map_of props key of None \<Rightarrow> JUndefined | Some v \<Rightarrow> v)"
| "getProp v key = JUndefined"

text \<open>\<open>Array.isArray\<close>, and the elements of an array.\<close>

fun isArray :: "JsValue \<Rightarrow> bool" where
  "isArray (JArray xs) = True"
| "isArray v = False"

fun elements :: "JsValue \<Rightarrow> JsValue list" where
  "elements (JArray xs) = xs"
| "elements v = []"

text \<open>\<open>typeof v === 'number'\<close>.\<close>

fun isNumber :: "JsValue \<Rightarrow> bool" where
  "isNumber (JNumber r) = True"
| "isNumber v = False"

fun numberOf :: "JsValue \<Rightarrow> real" where
  "numberOf (JNumber r) = r"
| "numberOf v = 0"

text \<open>The transform configuration; \<open>normalize\<close> is the truthiness of the property.\<close>

record TransformConfig =
  normalize :: bool

section \<open>DataNormalizer.normalizeCrypto\<close>

text \<open>The body of the loop \<open>for (const pricePoint of rawData.prices)\<close>.\<close>

definition cryptoStep :: "Host \<Rightarrow> JsValue \<Rightarrow> DataPoint list \<Rightarrow> DataPoint list" where
  "cryptoStep host pricePoint dps =
     (if \<not> isArray pricePoint \<or> length (elements pricePoint) < 2 then dps
      else
        let timestamp = elements pricePoint ! 0;
            price = elements pricePoint ! 1
        in if \<not> isNumber timestamp \<or> \<not> isNumber price then dps
           else dps @ [\<lparr> dp_timestamp = numberOf timestamp,
                          dp_value = numberOf price,
                          dp_originalValue = numberOf price,
                          dp_label = toLocaleString host (numberOf timestamp) \<rparr>])"

definition cryptoLoop :: "Host \<Rightarrow> JsValue list \<Rightarrow> DataPoint list" where
  "cryptoLoop host prices = fold (cryptoStep host) prices []"

section \<open>DataNormalizer.normalizeWeather: the collecting loop\<close>

text \<open>
  The loop of \<open>normalizeWeather\<close> pushes the temperature as it finds it and the time
  \<open>new Date(timeStr).getTime()\<close>, which is \<open>NaN\<close> for a string that is no date. Its
  points are kept here with these types. \<open>new Date(v).getTime()\<close> is a built-in and
  a parameter; \<open>toLocaleString\<close> of an invalid date is \<open>"Invalid Date"\<close>.
\<close>

record RawPoint =
  rp_timestamp :: JsNumber
  rp_value :: JsValue
  rp_originalValue :: JsValue
  rp_label :: string

definition dateLabel :: "Host \<Rightarrow> JsNumber \<Rightarrow> string" where
  "dateLabel host t = (case t of JsNum r \<Rightarrow> toLocaleString host r | _ \<Rightarrow> ''Invalid Date'')"

text \<open>The body of the loop at index \<open>i\<close>.\<close>

definition weatherStep ::
  "Host \<Rightarrow> (JsValue \<Rightarrow> JsNumber) \<Rightarrow> JsValue list \<Rightarrow> JsValue list \<Rightarrow> nat \<Rightarrow> RawPoint list
     \<Rightarrow> RawPoint list" where
  "weatherStep host dateGetTime timeArr temperatures i dps =
     (let timeStr = timeArr ! i;
          temp = temperatures ! i
      in if \<not> truthyValue timeStr \<or> temp = JNull \<or> temp = JUndefined then dps
         else
           let timestamp = dateGetTime timeStr
           in dps @ [\<lparr> rp_timestamp = timestamp,
                        rp_value = temp,
                        rp_originalValue = temp,
                        rp_label = dateLabel host timestamp \<rparr>])"

text \<open>\<open>for (let i = 0; i < times.length && i < temperatures.length; i++)\<close>.\<close>

definition weatherLoop ::
  "Host \<Rightarrow> (JsValue \<Rightarrow> JsNumber) \<Rightarrow> JsValue list \<Rightarrow> JsValue list \<Rightarrow> RawPoint list" where
  "weatherLoop host dateGetTime timeArr temperatures =
     fold (weatherStep host dateGetTime timeArr temperatures)
       [0..<min (length timeArr) (length temperatures)] []"

section \<open>IEEE 754 double precision\<close>

text \<open>
  The results of \<open>detectTrends\<close>, \<open>detectSpikes\<close>, \<open>calculateCorrelation\<close> and of
  the metadata and normalization steps of the canonicalizers depend on the rounding
  and on the overflow of JavaScript's arithmetic. For them a JavaScript number is
  a \<open>Double\<close>: \<open>NaN\<close>, one of the two infinities, or a finite double, kept as the
  real number it denotes. The sign of a zero is not kept: no division by a zero is
  reached in the code modelled here (each divisor is a length, is tested, or is
  nonzero where the division is reached), and nothing else in that code tells the
  two zeros apart.
\<close>

datatype Double = NaN | PInf | NInf | Finite real

text \<open>Rounding of a real to the nearest integer, a tie going to the even one.\<close>

definition roundEven :: "real \<Rightarrow> int" where
  "roundEven x =
     (let f = \<lfloor>x\<rfloor>
      in if x - of_int f < 1 / 2 then f
         else if x - of_int f > 1 / 2 then f + 1
         else if even f then f else f + 1)"

text \<open>
  The exponent of the unit in the last place of the doubles around \<open>x\<close>: a double
  has 53 significant bits, and the least exponent of a normal double is \<open>-1022\<close>
  (below it the subnormal doubles are \<open>2\<^sup>-\<^sup>1\<^sup>0\<^sup>7\<^sup>4\<close> apart).
\<close>

definition ulpExp :: "real \<Rightarrow> int" where
  "ulpExp x = max \<lfloor>log 2 \<bar>x\<bar>\<rfloor> (- 1022) - 52"

text \<open>The nearest multiple of that unit, a tie going to the even multiple.\<close>

definition nearest :: "real \<Rightarrow> real" where
  "nearest x = of_int (roundEven (x / 2 powi ulpExp x)) * 2 powi ulpExp x"

text \<open>
  The double to which a real result is rounded (round to nearest, ties to even):
  a result that rounds to \<open>2\<^sup>1\<^sup>0\<^sup>2\<^sup>4\<close> or beyond in magnitude overflows to an
  infinity.
\<close>

definition rd :: "real \<Rightarrow> Double" where
  "rd x =
     (if x = 0 then Finite 0
      else if \<bar>nearest x\<bar> \<ge> 2 ^ 1024 then (if x > 0 then PInf else NInf)
      else Finite (nearest x))"

text \<open>The least positive double; every double is a multiple of it.\<close>

definition minDouble :: real where
  "minDouble = 2 powi (- 1074)"

text \<open>An array index or an array length, as a number.\<close>

definition num :: "nat \<Rightarrow> Double" where
  "num n = Finite (real n)"

text \<open>The unary minus.\<close>

definition neg64 :: "Double \<Rightarrow> Double" where
  "neg64 a = (case a of NaN \<Rightarrow> NaN | PInf \<Rightarrow> NInf | NInf \<Rightarrow> PInf | Finite x \<Rightarrow> Finite (- x))"

text \<open>\<open>a + b\<close> and \<open>a - b\<close>.\<close>

definition add64 :: "Double \<Rightarrow> Double \<Rightarrow> Double" where
  "add64 a b =
     (case (a, b) of
        (Finite x, Finite y) \<Rightarrow> rd (x + y)
      | (NaN, _) \<Rightarrow> NaN
      | (_, NaN) \<Rightarrow> NaN
      | (PInf, NInf) \<Rightarrow> NaN
      | (NInf, PInf) \<Rightarrow> NaN
      | (PInf, _) \<Rightarrow> PInf
      | (_, PInf) \<Rightarrow> PInf
      | (NInf, _) \<Rightarrow> NInf
      | (_, NInf) \<Rightarrow> NInf)"

definition sub64 :: "Double \<Rightarrow> Double \<Rightarrow> Double" where
  "sub64 a b = add64 a (neg64 b)"

text \<open>The sign of a number: \<open>1\<close>, \<open>-1\<close>, or \<open>0\<close> for a zero and for \<open>NaN\<close>.\<close>

definition sign64 :: "Double \<Rightarrow> int" where
  "sign64 a =
     (case a of NaN \<Rightarrow> 0 | PInf \<Rightarrow> 1 | NInf \<Rightarrow> - 1
      | Finite x \<Rightarrow> if x > 0 then 1 else if x < 0 then - 1 else 0)"

text \<open>\<open>a * b\<close>: an infinity times a zero is \<open>NaN\<close>.\<close>

definition mul64 :: "Double \<Rightarrow> Double \<Rightarrow> Double" where
  "mul64 a b =
     (case (a, b) of
        (Finite x, Finite y) \<Rightarrow> rd (x * y)
      | (NaN, _) \<Rightarrow> NaN
      | (_, NaN) \<Rightarrow> NaN
      | _ \<Rightarrow> if sign64 a * sign64 b = 0 then NaN
             else if sign64 a * sign64 b > 0 then PInf else NInf)"

text \<open>
  \<open>a / b\<close>: an infinity by an infinity and a zero by a zero are \<open>NaN\<close>, a finite
  number by an infinity is a zero. A zero divisor is taken as \<open>+0\<close>.
\<close>

definition div64 :: "Double \<Rightarrow> Double \<Rightarrow> Double" where
  "div64 a b =
     (case (a, b) of
        (Finite x, Finite y) \<Rightarrow>
          if y = 0 then (if x = 0 then NaN else if x > 0 then PInf else NInf)
          else rd (x / y)
      | (NaN, _) \<Rightarrow> NaN
      | (_, NaN) \<Rightarrow> NaN
      | (Finite x, _) \<Rightarrow> Finite 0
      | (_, Finite y) \<Rightarrow> if sign64 a * (if y < 0 then - 1 else 1) > 0 then PInf else NInf
      | _ \<Rightarrow> NaN)"

text \<open>
  \<open>Math.sqrt\<close>, the correctly rounded square root of IEEE 754, and \<open>Math.abs\<close>.
\<close>

definition Math_sqrt64 :: "Double \<Rightarrow> Double" where
  "Math_sqrt64 a =
     (case a of NaN \<Rightarrow> NaN | PInf \<Rightarrow> PInf | NInf \<Rightarrow> NaN
      | Finite x \<Rightarrow> if x < 0 then NaN else rd (sqrt x))"

definition Math_abs64 :: "Double \<Rightarrow> Double" where
  "Math_abs64 a =
     (case a of NaN \<Rightarrow> NaN | PInf \<Rightarrow> PInf | NInf \<Rightarrow> PInf | Finite x \<Rightarrow> Finite \<bar>x\<bar>)"

text \<open>
  \<open>Math.round\<close>: the nearest integer, a tie going up; it is exact, and leaves
  \<open>NaN\<close> and the infinities as they are.
\<close>

definition Math_round64 :: "Double \<Rightarrow> Double" where
  "Math_round64 a = (case a of Finite x \<Rightarrow> Finite (of_int \<lfloor>x + 1 / 2\<rfloor>) | _ \<Rightarrow> a)"

text \<open>
  \<open>a < b\<close> and \<open>a <= b\<close>: false as soon as one side is \<open>NaN\<close>. \<open>a > b\<close> is
  \<open>b < a\<close> and \<open>a >= b\<close> is \<open>b <= a\<close>.
\<close>

definition lt64 :: "Double \<Rightarrow> Double \<Rightarrow> bool" where
  "lt64 a b =
     (case (a, b) of
        (Finite x, Finite y) \<Rightarrow> x < y
      | (NaN, _) \<Rightarrow> False
      | (_, NaN) \<Rightarrow> False
      | (NInf, NInf) \<Rightarrow> False
      | (NInf, _) \<Rightarrow> True
      | (PInf, _) \<Rightarrow> False
      | (_, PInf) \<Rightarrow> True
      | _ \<Rightarrow> False)"

definition le64 :: "Double \<Rightarrow> Double \<Rightarrow> bool" where
  "le64 a b = (lt64 a b \<or> (a = b \<and> a \<noteq> NaN))"


section \<open>Series of doubles\<close>

text \<open>
  The data point, the metadata, the time series, the spike and the correlation
  object once more, with a \<open>Double\<close> in every number field.
\<close>

record Point64 =
  timestamp64 :: Double
  value64 :: Double
  originalValue64 :: Double
  label64 :: string

record Metadata64 =
  unit64 :: string
  min64 :: Double
  max64 :: Double
  mean64 :: Double
  count64 :: nat

record Series64 =
  sourceName64 :: string
  dataPoints64 :: "Point64 list"
  metadata64 :: Metadata64

record Spike64 =
  source64 :: string
  spikeTimestamp64 :: Double
  spikeValue64 :: Double
  percentChange64 :: Double
  zScore64 :: Double

record Correlation64 =
  coefficient64 :: Double
  strength64 :: string
  direction64 :: string

record EnginePair64 =
  pairTimestamp64 :: Double
  value1_64 :: Double
  value2_64 :: Double

text \<open>
  \<open>z > threshold\<close> for a number \<open>z\<close> and a threshold argument: \<open>null\<close> is
  converted to \<open>0\<close>, and a comparison with \<open>NaN\<close> (to which \<open>undefined\<close> is
  converted) is false.
\<close>

definition greaterThan64 :: "Double \<Rightarrow> JsNumber \<Rightarrow> bool" where
  "greaterThan64 z threshold =
     (case threshold of JsNum r \<Rightarrow> lt64 (Finite r) z | JsNull \<Rightarrow> lt64 (Finite 0) z
      | JsNaN \<Rightarrow> False | JsUndefined \<Rightarrow> False)"

section \<open>InsightEngine.detectTrends on doubles\<close>

text \<open>
  The body of the loop \<open>for (let i = 0; i < n; i++)\<close> on the state
  \<open>(sumX, sumY, sumXY, sumX2)\<close>, every operation rounded.
\<close>

definition trendStep64 ::
  "Point64 list \<Rightarrow> nat \<Rightarrow> Double \<times> Double \<times> Double \<times> Double
     \<Rightarrow> Double \<times> Double \<times> Double \<times> Double" where
  "trendStep64 dps i st =
     (case st of (sumX, sumY, sumXY, sumX2) \<Rightarrow>
        let x = num i; y = value64 (dps ! i)
        in (add64 sumX x, add64 sumY y, add64 sumXY (mul64 x y), add64 sumX2 (mul64 x x)))"

text \<open>
  \<open>detectTrends(series)\<close>. The literal \<open>0.01\<close> is the double nearest to one
  hundredth; \<open>meanValue !== 0\<close> holds of \<open>NaN\<close>.
\<close>

definition detectTrends64 :: "Series64 option \<Rightarrow> string" where
  "detectTrends64 series =
     (case series of
        None \<Rightarrow> ''stable''
      | Some s \<Rightarrow>
          if length (dataPoints64 s) < 2 then ''stable''
          else
            let dps = dataPoints64 s;
                n = length dps
            in case fold (trendStep64 dps) [0..<n] (Finite 0, Finite 0, Finite 0, Finite 0) of
                 (sumX, sumY, sumXY, sumX2) \<Rightarrow>
                   let slope = div64 (sub64 (mul64 (num n) sumXY) (mul64 sumX sumY))
                                 (sub64 (mul64 (num n) sumX2) (mul64 sumX sumX));
                       meanValue = div64 sumY (num n);
                       normalizedSlope =
                         (if meanValue \<noteq> Finite 0 then div64 slope meanValue else slope);
                       threshold = rd 0.01
                   in if lt64 threshold normalizedSlope then ''increasing''
                      else if lt64 normalizedSlope (neg64 threshold) then ''decreasing''
                      else ''stable'')"

section \<open>InsightEngine.detectSpikes on doubles\<close>

text \<open>
  The body of the loop over the interior indices: the spike pushed at index \<open>i\<close>,
  if any.
\<close>

definition spikeAt64 :: "Series64 \<Rightarrow> JsNumber \<Rightarrow> Double \<Rightarrow> Double \<Rightarrow> nat \<Rightarrow> Spike64 option" where
  "spikeAt64 s threshold mean stdDev i =
     (let dps = dataPoints64 s;
          currentValue = value64 (dps ! i);
          prevValue = value64 (dps ! (i - 1));
          nextValue = value64 (dps ! (i + 1));
          zScore = Math_abs64 (div64 (sub64 currentValue mean) stdDev)
      in if greaterThan64 zScore threshold then
           let isLocalMax = (lt64 prevValue currentValue \<and> lt64 nextValue currentValue);
               isLocalMin = (lt64 currentValue prevValue \<and> lt64 currentValue nextValue)
           in if isLocalMax \<or> isLocalMin then
                let percentChange =
                      (if prevValue \<noteq> Finite 0
                       then mul64 (div64 (sub64 currentValue prevValue) (Math_abs64 prevValue))
                              (Finite 100)
                       else Finite 0)
                in Some \<lparr> source64 = sourceName64 s,
                          spikeTimestamp64 = timestamp64 (dps ! i),
                          spikeValue64 = originalValue64 (dps ! i),
                          percentChange64 =
                            div64 (Math_round64 (mul64 percentChange (Finite 100))) (Finite 100),
                          zScore64 =
                            div64 (Math_round64 (mul64 zScore (Finite 100))) (Finite 100) \<rparr>
              else None
         else None)"

text \<open>
  \<open>detectSpikes(series, threshold = 1.5)\<close>. The two \<open>reduce\<close> calls add from
  \<open>0\<close> in the order of the array; \<open>Math.pow(d, 2)\<close> is the product \<open>d * d\<close>, as
  it is in the engines whose \<open>pow\<close> descends from fdlibm. The literal \<open>0.0001\<close> is
  the double nearest to it.
\<close>

definition detectSpikes64 :: "Series64 option \<Rightarrow> JsNumber \<Rightarrow> Spike64 list" where
  "detectSpikes64 series thresholdArg =
     (let threshold = (case thresholdArg of JsUndefined \<Rightarrow> JsNum 1.5 | t \<Rightarrow> t)
      in case series of
           None \<Rightarrow> []
         | Some s \<Rightarrow>
             if length (dataPoints64 s) < 3 then []
             else
               let dps = dataPoints64 s;
                   vals = map value64 dps;
                   mean = div64 (fold (\<lambda>val sum. add64 sum val) vals (Finite 0))
                            (num (length vals));
                   variance =
                     div64 (fold (\<lambda>val sum. add64 sum (mul64 (sub64 val mean) (sub64 val mean)))
                              vals (Finite 0))
                       (num (length vals));
                   stdDev = Math_sqrt64 variance
               in if lt64 stdDev (rd 0.0001) then []
                  else fold (\<lambda>i spikes. case spikeAt64 s threshold mean stdDev i of
                                          None \<Rightarrow> spikes
                                        | Some sp \<Rightarrow> spikes @ [sp])
                         [1..<length dps - 1] [])"

section \<open>InsightEngine.calculateCorrelation on doubles\<close>

text \<open>
  The inner loop of \<open>alignDataPoints\<close>; the state is the pair of the variables
  \<open>closestPoint\<close> (initially \<open>null\<close>) and \<open>minDiff\<close> (initially \<open>Infinity\<close>).
\<close>

fun closestScan64 ::
  "Point64 \<Rightarrow> Point64 list \<Rightarrow> Point64 option \<times> Double \<Rightarrow> Point64 option \<times> Double" where
  "closestScan64 point1 [] st = st"
| "closestScan64 point1 (point2 # rest) (closestPoint, minDiff) =
     (let diff = Math_abs64 (sub64 (timestamp64 point1) (timestamp64 point2)) in
      if lt64 diff minDiff \<and> le64 diff (Finite 3600000)
      then closestScan64 point1 rest (Some point2, diff)
      else closestScan64 point1 rest (closestPoint, minDiff))"

fun alignDataPointsLoop64 ::
  "Point64 list \<Rightarrow> Point64 list \<Rightarrow> EnginePair64 list \<Rightarrow> EnginePair64 list" where
  "alignDataPointsLoop64 [] dataPoints2 aligned = aligned"
| "alignDataPointsLoop64 (point1 # rest) dataPoints2 aligned =
     (case fst (closestScan64 point1 dataPoints2 (None, PInf)) of
        None \<Rightarrow> alignDataPointsLoop64 rest dataPoints2 aligned
      | Some closestPoint \<Rightarrow>
          alignDataPointsLoop64 rest dataPoints2
            (aligned @ [\<lparr> pairTimestamp64 = timestamp64 point1,
                          value1_64 = value64 point1,
                          value2_64 = value64 closestPoint \<rparr>]))"

definition alignDataPoints64 :: "Point64 list \<Rightarrow> Point64 list \<Rightarrow> EnginePair64 list" where
  "alignDataPoints64 dataPoints1 dataPoints2 = alignDataPointsLoop64 dataPoints1 dataPoints2 []"

text \<open>
  The body of the loop \<open>for (let i = 0; i < n; i++)\<close> on the state
  \<open>(numerator, sumSq1, sumSq2)\<close>.
\<close>

definition pearsonStep64 ::
  "Double list \<Rightarrow> Double list \<Rightarrow> Double \<Rightarrow> Double \<Rightarrow> nat \<Rightarrow> Double \<times> Double \<times> Double
     \<Rightarrow> Double \<times> Double \<times> Double" where
  "pearsonStep64 values1 values2 mean1 mean2 i st =
     (case st of (numerator, sumSq1, sumSq2) \<Rightarrow>
        let diff1 = sub64 (values1 ! i) mean1;
            diff2 = sub64 (values2 ! i) mean2
        in (add64 numerator (mul64 diff1 diff2), add64 sumSq1 (mul64 diff1 diff1),
            add64 sumSq2 (mul64 diff2 diff2)))"

text \<open>
  The part of \<open>calculateCorrelation\<close> after the alignment, from the aligned pairs
  to the returned object. The literals \<open>0.7\<close>, \<open>0.4\<close> and \<open>0.1\<close> are the doubles
  nearest to them.
\<close>

definition correlationOfPairs64 :: "EnginePair64 list \<Rightarrow> Correlation64" where
  "correlationOfPairs64 pairs =
     (if length pairs < 2
      then \<lparr> coefficient64 = Finite 0, strength64 = ''none'', direction64 = ''none'' \<rparr>
      else
        let values1 = map value1_64 pairs;
            values2 = map value2_64 pairs;
            n = length values1;
            mean1 = div64 (fold (\<lambda>val sum. add64 sum val) values1 (Finite 0)) (num n);
            mean2 = div64 (fold (\<lambda>val sum. add64 sum val) values2 (Finite 0)) (num n)
        in case fold (pearsonStep64 values1 values2 mean1 mean2) [0..<n]
                  (Finite 0, Finite 0, Finite 0) of
             (numerator, sumSq1, sumSq2) \<Rightarrow>
               let denominator = Math_sqrt64 (mul64 sumSq1 sumSq2);
                   coeff = (if denominator \<noteq> Finite 0 then div64 numerator denominator
                            else Finite 0);
                   absCoeff = Math_abs64 coeff;
                   strengthText =
                     (if le64 (rd 0.7) absCoeff then ''strong''
                      else if le64 (rd 0.4) absCoeff then ''moderate''
                      else if le64 (rd 0.1) absCoeff then ''weak''
                      else ''none'');
                   directionText =
                     (if lt64 (rd 0.1) coeff then ''positive''
                      else if lt64 coeff (neg64 (rd 0.1)) then ''negative''
                      else ''none'')
               in \<lparr> coefficient64 = div64 (Math_round64 (mul64 coeff (Finite 1000))) (Finite 1000),
                     strength64 = strengthText,
                     direction64 = directionText \<rparr>)"

definition calculateCorrelation64 :: "Series64 option \<Rightarrow> Series64 option \<Rightarrow> Correlation64" where
  "calculateCorrelation64 series1 series2 =
     (case (series1, series2) of
        (Some s1, Some s2) \<Rightarrow>
          if length (dataPoints64 s1) = 0 \<or> length (dataPoints64 s2) = 0
          then \<lparr> coefficient64 = Finite 0, strength64 = ''none'', direction64 = ''none'' \<rparr>
          else correlationOfPairs64 (alignDataPoints64 (dataPoints64 s1) (dataPoints64 s2))
      | _ \<Rightarrow> \<lparr> coefficient64 = Finite 0, strength64 = ''none'', direction64 = ''none'' \<rparr>)"

section \<open>DataNormalizer: limiter, metadata and the common end of a canonicalizer\<close>

text \<open>\<open>createEmptyTimeSeries(sourceName, unit)\<close>, as a series of doubles.\<close>

definition createEmptyTimeSeries64 :: "string \<Rightarrow> string \<Rightarrow> Series64" where
  "createEmptyTimeSeries64 name u =
     \<lparr> sourceName64 = name, dataPoints64 = [],
       metadata64 = \<lparr> unit64 = u, min64 = Finite 0, max64 = Finite 0, mean64 = Finite 0,
                      count64 = 0 \<rparr> \<rparr>"

text \<open>\<open>limitDataPoints(dataPoints, maxPoints)\<close>: \<open>splice(0, length - maxPoints)\<close>.\<close>

definition limitDataPoints :: "'a list \<Rightarrow> nat \<Rightarrow> 'a list" where
  "limitDataPoints dps maxPoints =
     (if length dps > maxPoints then drop (length dps - maxPoints) dps else dps)"

text \<open>
  \<open>Math.min(...values)\<close> and \<open>Math.max(...values)\<close>: \<open>NaN\<close> as soon as one value
  is \<open>NaN\<close>, and \<open>Infinity\<close> and \<open>-Infinity\<close> of no value.
\<close>

definition Math_min64 :: "Double list \<Rightarrow> Double" where
  "Math_min64 vals =
     fold (\<lambda>v m. if m = NaN \<or> v = NaN then NaN else if lt64 v m then v else m) vals PInf"

definition Math_max64 :: "Double list \<Rightarrow> Double" where
  "Math_max64 vals =
     fold (\<lambda>v m. if m = NaN \<or> v = NaN then NaN else if lt64 m v then v else m) vals NInf"

text \<open>
  \<open>calculateMetadata(values, unit)\<close>: the sum is accumulated from \<open>0\<close> in the order
  of the array, every addition rounded.
\<close>

definition calculateMetadata :: "Double list \<Rightarrow> string \<Rightarrow> Metadata64" where
  "calculateMetadata vals u =
     (if length vals = 0
      then \<lparr> unit64 = u, min64 = Finite 0, max64 = Finite 0, mean64 = Finite 0, count64 = 0 \<rparr>
      else
        let mn = Math_min64 vals;
            mx = Math_max64 vals;
            total = fold (\<lambda>val acc. add64 acc val) vals (Finite 0);
            mean = div64 total (num (length vals))
        in \<lparr> unit64 = u, min64 = mn, max64 = mx, mean64 = mean, count64 = length vals \<rparr>)"

text \<open>
  The order in which \<open>dataPoints.sort((a, b) => a.timestamp - b.timestamp)\<close> puts
  timestamps none of which is \<open>NaN\<close>: \<open>-Infinity\<close> first, the finite ones by
  their value, \<open>Infinity\<close> last (the difference of two equal infinities is \<open>NaN\<close>,
  which the sort takes as \<open>0\<close>). With a \<open>NaN\<close> timestamp the comparator is
  inconsistent and the order is left to the implementation; the key puts it last.
\<close>

definition timeKey :: "Double \<Rightarrow> int \<times> real" where
  "timeKey t = (case t of NInf \<Rightarrow> (- 1, 0) | Finite r \<Rightarrow> (0, r) | PInf \<Rightarrow> (1, 0) | NaN \<Rightarrow> (2, 0))"

text \<open>
  Every canonicalizer ends with the same statements (in \<open>normalizeAirQuality\<close> from
  \<open>dataPoints.sort\<close> to the \<open>return\<close>, repeated in \<open>normalizeCrypto\<close> with its own
  name and unit): sort by timestamp, limit to 100, compute the metadata, normalize
  if requested. \<open>Array.prototype.sort\<close> is stable: it is \<open>sort_key\<close>.
\<close>

definition finishTimeSeries :: "string \<Rightarrow> string \<Rightarrow> TransformConfig \<Rightarrow> Point64 list \<Rightarrow> Series64" where
  "finishTimeSeries name u transformConfig collected =
     (let sortedPoints = sort_key (\<lambda>dp. timeKey (timestamp64 dp)) collected;
          dps = limitDataPoints sortedPoints 100;
          vals = map value64 dps;
          md = calculateMetadata vals u;
          dps' =
            (if normalize transformConfig \<and> length dps > 0 then
               let mn = min64 md;
                   mx = max64 md;
                   range = sub64 mx mn
               in if lt64 (Finite 0) range
                  then map (\<lambda>dp. dp\<lparr> value64 := div64 (sub64 (originalValue64 dp) mn) range \<rparr>) dps
                  else dps
             else dps)
      in \<lparr> sourceName64 = name, dataPoints64 = dps', metadata64 = md \<rparr>)"

section \<open>DataNormalizer.normalizeCrypto\<close>

text \<open>
  A point collected from a payload holds the numbers of the payload, which are
  finite doubles.
\<close>

definition asPoint64 :: "DataPoint \<Rightarrow> Point64" where
  "asPoint64 dp =
     \<lparr> timestamp64 = Finite (dp_timestamp dp), value64 = Finite (dp_value dp),
       originalValue64 = Finite (dp_originalValue dp), label64 = dp_label dp \<rparr>"

definition normalizeCrypto :: "Host \<Rightarrow> JsValue \<Rightarrow> TransformConfig \<Rightarrow> Series64" where
  "normalizeCrypto host rawData transformConfig =
     (if \<not> truthyValue rawData \<or> \<not> truthyValue (getProp rawData ''prices'')
         \<or> \<not> isArray (getProp rawData ''prices'')
      then createEmptyTimeSeries64 ''Cryptocurrency'' ''USD''
      else finishTimeSeries ''Cryptocurrency'' ''USD'' transformConfig
             (map asPoint64 (cryptoLoop host (elements (getProp rawData ''prices'')))))"

section \<open>DataNormalizer.normalizeAirQuality\<close>

text \<open>
  The OpenWeather response \<open>{ list: [ { dt, main: { aqi } } ] }\<close> with the types of
  its documentation: \<open>dt\<close> and \<open>aqi\<close> are (finite) numbers where they are present.
  \<open>None\<close> is an absent field, an absent item, or an absent or non-array \<open>list\<close>.
\<close>

record AqMain =
  aq_aqi :: "real option"

record AqItem =
  aq_dt :: "real option"
  aq_main :: "AqMain option"

type_synonym AqRawData = "AqItem option list option"

text \<open>\<open>new Date(t).toLocaleString()\<close>: a date of a time that is not finite is invalid.\<close>

definition dateLabel64 :: "Host \<Rightarrow> Double \<Rightarrow> string" where
  "dateLabel64 host t = (case t of Finite r \<Rightarrow> toLocaleString host r | _ \<Rightarrow> ''Invalid Date'')"

text \<open>
  The body of the loop \<open>for (const item of rawData.list)\<close>. \<open>!item.dt\<close> holds of
  an absent \<open>dt\<close> and of \<open>0\<close>; the product \<open>item.dt * 1000\<close> is rounded.
\<close>

definition airQualityStep :: "Host \<Rightarrow> AqItem option \<Rightarrow> Point64 list \<Rightarrow> Point64 list" where
  "airQualityStep host item dps =
     (case item of
        None \<Rightarrow> dps
      | Some it \<Rightarrow>
          (case aq_dt it of
             None \<Rightarrow> dps
           | Some d \<Rightarrow>
               if d = 0 then dps
               else
                 (case aq_main it of
                    None \<Rightarrow> dps
                  | Some m \<Rightarrow>
                      (case aq_aqi m of
                         None \<Rightarrow> dps
                       | Some a \<Rightarrow>
                           dps @ [\<lparr> timestamp64 = mul64 (Finite d) (Finite 1000),
                                    value64 = Finite a,
                                    originalValue64 = Finite a,
                                    label64 = dateLabel64 host (mul64 (Finite d) (Finite 1000)) \<rparr>]))))"

definition airQualityLoop :: "Host \<Rightarrow> AqItem option list \<Rightarrow> Point64 list" where
  "airQualityLoop host items = fold (airQualityStep host) items []"

definition normalizeAirQuality :: "Host \<Rightarrow> AqRawData \<Rightarrow> TransformConfig \<Rightarrow> Series64" where
  "normalizeAirQuality host rawData transformConfig =
     (case rawData of
        None \<Rightarrow> createEmptyTimeSeries64 ''Air Quality'' ''AQI''
      | Some items \<Rightarrow>
          finishTimeSeries ''Air Quality'' ''AQI'' transformConfig (airQualityLoop host items))"


section \<open>Concrete inputs\<close>

text \<open>A host whose renderings are empty strings.\<close>

definition plainHost :: Host where
  "plainHost = \<lparr> toLocaleDateString = (\<lambda>t. ''''), toLocaleString = (\<lambda>t. ''''),
                 numberToString = (\<lambda>r. '''') \<rparr>"

text \<open>A data point whose value is also its original value.\<close>

definition pt :: "real \<Rightarrow> real \<Rightarrow> DataPoint" where
  "pt t v = \<lparr> dp_timestamp = t, dp_value = v, dp_originalValue = v, dp_label = '''' \<rparr>"

text \<open>A series of the given points, with the metadata of an empty series.\<close>

definition seriesOf :: "string \<Rightarrow> DataPoint list \<Rightarrow> TimeSeries" where
  "seriesOf name dps =
     \<lparr> sourceName = name, dataPoints = dps,
       metadata = \<lparr> md_unit = '''', md_min = 0, md_max = 0, md_mean = 0, md_count = 0 \<rparr> \<rparr>"

text \<open>The values \<open>1, 3, 1, 3\<close> at the times \<open>0, 1, 2, 3\<close>.\<close>

definition zigzag :: TimeSeries where
  "zigzag = seriesOf ''A'' [pt 0 1, pt 1 3, pt 2 1, pt 3 3]"

text \<open>A series of one point.\<close>

definition onePoint :: TimeSeries where
  "onePoint = seriesOf ''A'' [pt 0 1]"

section \<open>The aligner as the specification words it\<close>






section \<open>Correlation as the specification words it\<close>










section \<open>Skipping of entries as the specification words it\<close>

text \<open>\<open>typeof v === 'string'\<close>.\<close>

fun isString :: "JsValue \<Rightarrow> bool" where
  "isString (JString s) = True"
| "isString v = False"

text \<open>
  Extraction from a price entry fails when the entry is not an array, a field is
  missing, or the timestamp or the price is not a number.
\<close>

definition cryptoExtractionFails :: "JsValue \<Rightarrow> bool" where
  "cryptoExtractionFails pricePoint =
     (\<not> isArray pricePoint \<or> length (elements pricePoint) < 2 \<or>
      \<not> isNumber (elements pricePoint ! 0) \<or> \<not> isNumber (elements pricePoint ! 1))"

text \<open>The data point of a price entry \<open>[timestamp, price, \<dots>]\<close>.\<close>

definition cryptoPoint :: "Host \<Rightarrow> JsValue \<Rightarrow> DataPoint" where
  "cryptoPoint host pricePoint =
     \<lparr> dp_timestamp = numberOf (elements pricePoint ! 0),
       dp_value = numberOf (elements pricePoint ! 1),
       dp_originalValue = numberOf (elements pricePoint ! 1),
       dp_label = toLocaleString host (numberOf (elements pricePoint ! 0)) \<rparr>"

text \<open>
  Extraction from a weather entry (time, temperature) fails when the time is
  missing or not a string, the time does not parse (its timestamp is \<open>NaN\<close>), or
  the temperature is missing, \<open>null\<close> or not a number.
\<close>

definition weatherExtractionFails :: "(JsValue \<Rightarrow> JsNumber) \<Rightarrow> JsValue \<times> JsValue \<Rightarrow> bool" where
  "weatherExtractionFails dateGetTime entry =
     (\<not> isString (fst entry) \<or> dateGetTime (fst entry) = JsNaN \<or> \<not> isNumber (snd entry))"

text \<open>
  A weather entry is missing its time when the time is \<open>undefined\<close>, \<open>null\<close> or the
  empty string, and its temperature when that is \<open>null\<close> or \<open>undefined\<close>.
\<close>

definition weatherEntryMissing :: "JsValue \<times> JsValue \<Rightarrow> bool" where
  "weatherEntryMissing entry =
     (fst entry = JUndefined \<or> fst entry = JNull \<or> fst entry = JString '''' \<or>
      snd entry = JNull \<or> snd entry = JUndefined)"

text \<open>
  Arrays as the Open-Meteo response documents them: a time is a string and a
  temperature a number, and either may be missing (\<open>null\<close> or \<open>undefined\<close>).
\<close>

definition weatherTyped :: "JsValue list \<Rightarrow> JsValue list \<Rightarrow> bool" where
  "weatherTyped timeArr temperatures =
     (list_all (\<lambda>t. isString t \<or> t = JNull \<or> t = JUndefined) timeArr \<and>
      list_all (\<lambda>v. isNumber v \<or> v = JNull \<or> v = JUndefined) temperatures)"

text \<open>The point pushed for a weather entry.\<close>

definition weatherPoint :: "Host \<Rightarrow> (JsValue \<Rightarrow> JsNumber) \<Rightarrow> JsValue \<times> JsValue \<Rightarrow> RawPoint" where
  "weatherPoint host dateGetTime entry =
     \<lparr> rp_timestamp = dateGetTime (fst entry),
       rp_value = snd entry,
       rp_originalValue = snd entry,
       rp_label = dateLabel host (dateGetTime (fst entry)) \<rparr>"

text \<open>
  A \<open>new Date(v).getTime()\<close> that knows one date string: the epoch
  \<open>1970-01-01T00:00:00Z\<close> is \<open>0\<close>, a number is itself, and any other string is
  no date (\<open>NaN\<close>), as \<open>not a date\<close> is for every host.
\<close>

definition epochGetTime :: "JsValue \<Rightarrow> JsNumber" where
  "epochGetTime v =
     (case v of
        JString s \<Rightarrow> if s = ''1970-01-01T00:00:00Z'' then JsNum 0 else JsNaN
      | JNumber r \<Rightarrow> JsNum r
      | _ \<Rightarrow> JsNaN)"



section \<open>Canonical series as the specification words them\<close>

text \<open>
  The valid points a canonicalizer extracts from a payload: those its loop
  collects, and none when the payload lacks the expected container.
\<close>

definition cryptoExtracted :: "Host \<Rightarrow> JsValue \<Rightarrow> Point64 list" where
  "cryptoExtracted host rawData =
     (if \<not> truthyValue rawData \<or> \<not> truthyValue (getProp rawData ''prices'')
         \<or> \<not> isArray (getProp rawData ''prices'')
      then []
      else map asPoint64 (cryptoLoop host (elements (getProp rawData ''prices''))))"

definition airQualityExtracted :: "Host \<Rightarrow> AqRawData \<Rightarrow> Point64 list" where
  "airQualityExtracted host rawData =
     (case rawData of None \<Rightarrow> [] | Some items \<Rightarrow> airQualityLoop host items)"

text \<open>
  Points as a canonicalizer collects them: the value is the original value, and
  neither it nor the timestamp is \<open>NaN\<close>.
\<close>

definition collectedPoints :: "Point64 list \<Rightarrow> bool" where
  "collectedPoints dps =
     (\<forall>dp\<in>set dps. value64 dp = originalValue64 dp \<and> value64 dp \<noteq> NaN \<and> timestamp64 dp \<noteq> NaN)"

text \<open>A data point without its \<open>value\<close> field, which normalization may rewrite.\<close>

definition pointCore :: "Point64 \<Rightarrow> Double \<times> Double \<times> string" where
  "pointCore dp = (timestamp64 dp, originalValue64 dp, label64 dp)"




text \<open>A real number that is a double: rounding leaves it as it is.\<close>

definition isDouble :: "real \<Rightarrow> bool" where
  "isDouble x = (rd x = Finite x)"

text \<open>
  The outcome of the normalization step on a canonical series \<open>ts\<close>: with
  normalization requested, at least one point and a difference \<open>max - min\<close> that
  is positive and has not overflowed, every value is
  \<open>(originalValue - min) / (max - min)\<close>, each operation rounded, and lies in
  \<open>[0, 1]\<close>; with \<open>max = min\<close>, or without the request, every value is the original
  value and is not \<open>NaN\<close>.
\<close>

definition normalizationOutcome :: "TransformConfig \<Rightarrow> Series64 \<Rightarrow> bool" where
  "normalizationOutcome transformConfig ts =
     (let dps = dataPoints64 ts;
          md = metadata64 ts;
          range = sub64 (max64 md) (min64 md)
      in (normalize transformConfig \<and> dps \<noteq> [] \<and> lt64 (Finite 0) range \<and> range \<noteq> PInf \<longrightarrow>
            (\<forall>dp\<in>set dps.
               value64 dp = div64 (sub64 (originalValue64 dp) (min64 md)) range \<and>
               le64 (Finite 0) (value64 dp) \<and> le64 (value64 dp) (Finite 1))) \<and>
         (max64 md = min64 md \<longrightarrow>
            (\<forall>dp\<in>set dps. value64 dp = originalValue64 dp \<and> value64 dp \<noteq> NaN)) \<and>
         (\<not> normalize transformConfig \<longrightarrow>
            (\<forall>dp\<in>set dps. value64 dp = originalValue64 dp \<and> value64 dp \<noteq> NaN)))"

text \<open>
  The payload \<open>{list: [{dt: 1000, main: {aqi: 2}}, {dt: 2000, main: {aqi: 4}}]}\<close>,
  and one with the same two times and the value \<open>3\<close> twice.
\<close>

definition aqSample :: AqRawData where
  "aqSample =
     Some [Some \<lparr> aq_dt = Some 1000, aq_main = Some \<lparr> aq_aqi = Some 2 \<rparr> \<rparr>,
           Some \<lparr> aq_dt = Some 2000, aq_main = Some \<lparr> aq_aqi = Some 4 \<rparr> \<rparr>]"

definition aqConstant :: AqRawData where
  "aqConstant =
     Some [Some \<lparr> aq_dt = Some 1000, aq_main = Some \<lparr> aq_aqi = Some 3 \<rparr> \<rparr>,
           Some \<lparr> aq_dt = Some 2000, aq_main = Some \<lparr> aq_aqi = Some 3 \<rparr> \<rparr>]"

text \<open>The payload \<open>{prices: [[2000, 7], [1000, 5], "x", [3000]]}\<close>.\<close>

definition cryptoSample :: JsValue where
  "cryptoSample =
     JObject [(''prices'',
       JArray [JArray [JNumber 2000, JNumber 7], JArray [JNumber 1000, JNumber 5],
               JString ''x'', JArray [JNumber 3000]])]"

text \<open>
  The double \<open>2\<^sup>1\<^sup>0\<^sup>2\<^sup>3\<close>, which \<open>8.98846567431158e307\<close> denotes. The payload
  \<open>{prices: [[1000, -8.98846567431158e307], [2000, 8.98846567431158e307]]}\<close>, and
  the payload with the price \<open>8.98846567431158e307\<close> at both times.
\<close>

definition big :: real where
  "big = 2 ^ 1023"

definition oppositePrices :: JsValue where
  "oppositePrices =
     JObject [(''prices'',
       JArray [JArray [JNumber 1000, JNumber (- big)], JArray [JNumber 2000, JNumber big]])]"


text \<open>A data point of doubles whose value is also its original value.\<close>

definition pt64 :: "real \<Rightarrow> real \<Rightarrow> Point64" where
  "pt64 t v =
     \<lparr> timestamp64 = Finite t, value64 = Finite v, originalValue64 = Finite v, label64 = '''' \<rparr>"


section \<open>Properties: fallback analysis and spike threshold\<close>




lemma uneventful_summary:
  assumes "detectTrends (Some sA) = ''stable''" and "detectTrends (Some sB) = ''stable''"
    and "detectSpikes (Some sA) (spikeThreshold this) = []"
    and "detectSpikes (Some sB) (spikeThreshold this) = []"
    and "strength (calculateCorrelation (Some sA) (Some sB)) = ''none''"
  shows "summary (analyzeData this host (Some sA) (Some sB)) =
     ''Both '' @ nameOr sA ''First dataset'' @ '' and '' @ nameOr sB ''Second dataset'' @
     '' show stable patterns over the observed period. No significant correlation was found between '' @
     nameOr sA ''First dataset'' @ '' and '' @ nameOr sB ''Second dataset'' @ ''.''"
  using assms
  by (simp add: analyzeData_def Let_def generateInsightText_def generateTrendInsight_def
      generateSpikeInsight_def generateCorrelationInsight_def)

lemma onePoint_uneventful:
  "detectTrends (Some onePoint) = ''stable''"
  "detectSpikes (Some onePoint) t = []"
  "strength (calculateCorrelation (Some onePoint) (Some onePoint)) = ''none''"
  by (simp_all add: detectTrends_def detectSpikes_def calculateCorrelation_def onePoint_def
      seriesOf_def pt_def alignDataPoints_def correlationOfPairs_def lessMinDiff_def
      split: JsNumber.splits)

text \<open>
  C9. When either argument of \<open>analyzeData\<close> is \<open>null\<close> or \<open>undefined\<close>, the result is
  the complete zeroed analysis: both trends \<open>stable\<close>, no spikes, the correlation
  \<open>{0, none, none}\<close> and the summary \<open>Insufficient data to generate insights.\<close>;
  the model is a total function, so nothing is thrown. For two present series with
  stable trends, no spikes and no correlation, the summary is the sentence about
  stable patterns followed by the sentence about no correlation, which is a
  different string.
\<close>

theorem analyzeData_insufficient_fallback:
  "(sA = None \<or> sB = None \<longrightarrow>
      analyzeData this host sA sB =
        \<lparr> trends = \<lparr> source1 = ''stable'', source2 = ''stable'' \<rparr>,
          spikes = [],
          correlation = \<lparr> coefficient = 0, strength = ''none'', direction = ''none'' \<rparr>,
          summary = ''Insufficient data to generate insights.'' \<rparr>) \<and>
   (detectTrends (Some p) = ''stable'' \<and> detectTrends (Some q) = ''stable'' \<and>
    detectSpikes (Some p) (spikeThreshold this) = [] \<and>
    detectSpikes (Some q) (spikeThreshold this) = [] \<and>
    strength (calculateCorrelation (Some p) (Some q)) = ''none'' \<longrightarrow>
      summary (analyzeData this host (Some p) (Some q)) =
        ''Both '' @ nameOr p ''First dataset'' @ '' and '' @ nameOr q ''Second dataset'' @
        '' show stable patterns over the observed period. No significant correlation was found between '' @
        nameOr p ''First dataset'' @ '' and '' @ nameOr q ''Second dataset'' @ ''.'' \<and>
      summary (analyzeData this host (Some p) (Some q)) \<noteq>
        ''Insufficient data to generate insights.'')"
proof (intro conjI impI)
  assume "sA = None \<or> sB = None"
  then show "analyzeData this host sA sB =
        \<lparr> trends = \<lparr> source1 = ''stable'', source2 = ''stable'' \<rparr>,
          spikes = [],
          correlation = \<lparr> coefficient = 0, strength = ''none'', direction = ''none'' \<rparr>,
          summary = ''Insufficient data to generate insights.'' \<rparr>"
    by (auto simp: analyzeData_def createEmptyAnalysis_def split: option.splits)
next
  assume u: "detectTrends (Some p) = ''stable'' \<and> detectTrends (Some q) = ''stable'' \<and>
    detectSpikes (Some p) (spikeThreshold this) = [] \<and>
    detectSpikes (Some q) (spikeThreshold this) = [] \<and>
    strength (calculateCorrelation (Some p) (Some q)) = ''none''"
  then show s: "summary (analyzeData this host (Some p) (Some q)) =
        ''Both '' @ nameOr p ''First dataset'' @ '' and '' @ nameOr q ''Second dataset'' @
        '' show stable patterns over the observed period. No significant correlation was found between '' @
        nameOr p ''First dataset'' @ '' and '' @ nameOr q ''Second dataset'' @ ''.''"
    by (simp add: uneventful_summary)
  show "summary (analyzeData this host (Some p) (Some q)) \<noteq>
        ''Insufficient data to generate insights.''"
    unfolding s by simp
qed

theorem analyzeData_insufficient_fallback_witness:
  "analyzeData (constructor JsUndefined) plainHost None (Some zigzag) =
     \<lparr> trends = \<lparr> source1 = ''stable'', source2 = ''stable'' \<rparr>,
       spikes = [],
       correlation = \<lparr> coefficient = 0, strength = ''none'', direction = ''none'' \<rparr>,
       summary = ''Insufficient data to generate insights.'' \<rparr> \<and>
   summary (analyzeData (constructor JsUndefined) plainHost (Some onePoint) (Some onePoint)) =
     ''Both A and A show stable patterns over the observed period. No significant correlation was found between A and A.''"
  using analyzeData_insufficient_fallback
          [where sA = None and sB = "Some zigzag" and p = onePoint and q = onePoint
             and this = "constructor JsUndefined" and host = plainHost]
  by (simp add: onePoint_uneventful) (simp add: nameOr_def onePoint_def seriesOf_def)



section \<open>Properties: the aligner\<close>













section \<open>Properties: folds\<close>


lemma fold_push_map_filter:
  "fold (\<lambda>i acc. case f i of None \<Rightarrow> acc | Some y \<Rightarrow> acc @ [y]) xs acc =
     acc @ List.map_filter f xs"
  by (induction xs arbitrary: acc) (simp_all add: map_filter_simps split: option.splits)

lemma map_filter_if:
  "List.map_filter (\<lambda>i. if P i then Some (g i) else None) xs = map g (filter P xs)"
  by (induction xs) (simp_all add: map_filter_simps)

section \<open>Properties: correlation\<close>



























section \<open>Properties: skipping of entries\<close>

lemma map_filter_map: "List.map_filter g (map k xs) = List.map_filter (g \<circ> k) xs"
  by (induction xs) (simp_all add: map_filter_simps comp_def split: option.splits)

lemma zip_nth_upt:
  "map (\<lambda>i. (xs ! i, ys ! i)) [0..<min (length xs) (length ys)] = zip xs ys"
  by (rule nth_equalityI) simp_all

lemma cryptoStep_push:
  "cryptoStep host pricePoint dps =
     (case (if \<not> cryptoExtractionFails pricePoint then Some (cryptoPoint host pricePoint) else None)
      of None \<Rightarrow> dps | Some dp \<Rightarrow> dps @ [dp])"
  by (auto simp: cryptoStep_def cryptoExtractionFails_def cryptoPoint_def Let_def)

lemma cryptoLoop_filter:
  "cryptoLoop host prices =
     map (cryptoPoint host) (filter (\<lambda>p. \<not> cryptoExtractionFails p) prices)"
proof -
  have "cryptoStep host = (\<lambda>p dps. case (if \<not> cryptoExtractionFails p
            then Some (cryptoPoint host p) else None) of None \<Rightarrow> dps | Some dp \<Rightarrow> dps @ [dp])"
    by (intro ext) (rule cryptoStep_push)
  then show ?thesis
    by (simp only: cryptoLoop_def fold_push_map_filter map_filter_if append_Nil)
qed

lemma weatherStep_push:
  "weatherStep host dateGetTime timeArr temperatures i dps =
     (case (if \<not> (\<not> truthyValue (timeArr ! i) \<or> temperatures ! i = JNull
                    \<or> temperatures ! i = JUndefined)
            then Some (weatherPoint host dateGetTime (timeArr ! i, temperatures ! i)) else None)
      of None \<Rightarrow> dps | Some dp \<Rightarrow> dps @ [dp])"
  by (auto simp: weatherStep_def weatherPoint_def Let_def)

lemma weatherLoop_filter:
  "weatherLoop host dateGetTime timeArr temperatures =
     map (weatherPoint host dateGetTime)
       (filter (\<lambda>e. \<not> (\<not> truthyValue (fst e) \<or> snd e = JNull \<or> snd e = JUndefined))
          (zip timeArr temperatures))"
proof -
  let ?P = "\<lambda>e. \<not> (\<not> truthyValue (fst e) \<or> snd e = JNull \<or> snd e = JUndefined)"
  let ?n = "min (length timeArr) (length temperatures)"
  have "weatherStep host dateGetTime timeArr temperatures =
        (\<lambda>i dps. case ((\<lambda>e. if ?P e then Some (weatherPoint host dateGetTime e) else None)
                          \<circ> (\<lambda>i. (timeArr ! i, temperatures ! i))) i
                  of None \<Rightarrow> dps | Some dp \<Rightarrow> dps @ [dp])"
    by (intro ext) (simp add: weatherStep_push)
  then have "weatherLoop host dateGetTime timeArr temperatures =
      List.map_filter ((\<lambda>e. if ?P e then Some (weatherPoint host dateGetTime e) else None)
                          \<circ> (\<lambda>i. (timeArr ! i, temperatures ! i))) [0..<?n]"
    by (simp only: weatherLoop_def fold_push_map_filter append_Nil)
  also have "\<dots> = List.map_filter (\<lambda>e. if ?P e then Some (weatherPoint host dateGetTime e) else None)
                     (zip timeArr temperatures)"
    by (simp only: map_filter_map [symmetric] zip_nth_upt)
  finally show ?thesis by (simp only: map_filter_if)
qed

lemma weatherTyped_guard:
  assumes "weatherTyped timeArr temperatures" and "e \<in> set (zip timeArr temperatures)"
  shows "(\<not> truthyValue (fst e) \<or> snd e = JNull \<or> snd e = JUndefined) = weatherEntryMissing e"
proof -
  obtain t v where e: "e = (t, v)" by (cases e)
  have "t \<in> set timeArr" "v \<in> set temperatures"
    using assms(2) e by (auto dest: set_zip_leftD set_zip_rightD)
  then have "isString t \<or> t = JNull \<or> t = JUndefined"
    using assms(1) by (auto simp: weatherTyped_def list_all_iff)
  then show ?thesis
    by (cases t) (auto simp: e weatherEntryMissing_def)
qed

lemma weatherLoop_typed:
  assumes "weatherTyped timeArr temperatures"
  shows "weatherLoop host dateGetTime timeArr temperatures =
     map (weatherPoint host dateGetTime)
       (filter (\<lambda>e. \<not> weatherEntryMissing e) (zip timeArr temperatures))"
proof -
  have "filter (\<lambda>e. \<not> (\<not> truthyValue (fst e) \<or> snd e = JNull \<or> snd e = JUndefined))
          (zip timeArr temperatures) =
        filter (\<lambda>e. \<not> weatherEntryMissing e) (zip timeArr temperatures)"
    by (rule filter_cong [OF refl]) (simp only: weatherTyped_guard [OF assms])
  then show ?thesis by (simp only: weatherLoop_filter)
qed

text \<open>
  C2, as stated, fails: the loop of \<open>normalizeWeather\<close> checks neither the parsed
  timestamp nor the type of the temperature. The entry with the time
  \<open>not a date\<close> has a failed timestamp extraction (\<open>NaN\<close>) and is not skipped: it
  contributes the second data point.
\<close>

theorem skip_unparsable_counterexample:
  "weatherExtractionFails epochGetTime (JString ''not a date'', JNumber 5) \<and>
   weatherLoop plainHost epochGetTime
       [JString ''1970-01-01T00:00:00Z'', JString ''not a date''] [JNumber 20, JNumber 5] =
     [\<lparr> rp_timestamp = JsNum 0, rp_value = JNumber 20, rp_originalValue = JNumber 20,
        rp_label = '''' \<rparr>,
      \<lparr> rp_timestamp = JsNaN, rp_value = JNumber 5, rp_originalValue = JNumber 5,
        rp_label = ''Invalid Date'' \<rparr>]"
  by (simp add: weatherExtractionFails_def epochGetTime_def weatherLoop_def weatherStep_def
      dateLabel_def plainHost_def upt_rec Let_def)

text \<open>
  C2, amended. \<open>normalizeCrypto\<close> skips a price entry exactly when its extraction
  fails (not an array, a missing field, a timestamp or price that is not a
  number). \<open>normalizeWeather\<close>, on arrays of time strings and numeric temperatures
  with possibly missing entries, skips an index exactly when its time is missing or
  empty or its temperature is \<open>null\<close> or \<open>undefined\<close>; a time string that does not
  parse is not skipped. In both, a skipped entry is dropped silently, every other
  entry contributes exactly one data point, in order, and the entries after a
  skipped one are processed as if it were absent.
\<close>

theorem entries_skipped_one_by_one:
  "cryptoLoop host prices =
     map (cryptoPoint host) (filter (\<lambda>p. \<not> cryptoExtractionFails p) prices) \<and>
   (cryptoExtractionFails bad \<longrightarrow>
      cryptoLoop host (before @ bad # after) = cryptoLoop host before @ cryptoLoop host after) \<and>
   (weatherTyped timeArr temperatures \<longrightarrow>
      weatherLoop host dateGetTime timeArr temperatures =
        map (weatherPoint host dateGetTime)
          (filter (\<lambda>e. \<not> weatherEntryMissing e) (zip timeArr temperatures)))"
  by (simp add: cryptoLoop_filter weatherLoop_typed)

theorem entries_skipped_one_by_one_witness:
  "weatherTyped
     [JString ''1970-01-01T00:00:00Z'', JString '''', JString ''not a date'',
      JString ''1970-01-01T00:00:00Z'']
     [JNumber 20, JNumber 21, JNumber 5, JNull] \<and>
   weatherLoop plainHost epochGetTime
     [JString ''1970-01-01T00:00:00Z'', JString '''', JString ''not a date'',
      JString ''1970-01-01T00:00:00Z'']
     [JNumber 20, JNumber 21, JNumber 5, JNull] =
     [weatherPoint plainHost epochGetTime (JString ''1970-01-01T00:00:00Z'', JNumber 20),
      weatherPoint plainHost epochGetTime (JString ''not a date'', JNumber 5)] \<and>
   cryptoExtractionFails (JString ''x'') \<and>
   cryptoLoop plainHost
     ([JArray [JNumber 2000, JNumber 7]] @ JString ''x'' #
      [JArray [JNumber 3000], JArray [JNumber 1000, JNumber 5]]) =
     [pt 2000 7, pt 1000 5]"
proof -
  have t: "weatherTyped
     [JString ''1970-01-01T00:00:00Z'', JString '''', JString ''not a date'',
      JString ''1970-01-01T00:00:00Z'']
     [JNumber 20, JNumber 21, JNumber 5, JNull]"
    by (simp add: weatherTyped_def)
  have f: "cryptoExtractionFails (JString ''x'')"
    by (simp add: cryptoExtractionFails_def)
  show ?thesis
    using entries_skipped_one_by_one
            [where host = plainHost and dateGetTime = epochGetTime
               and timeArr = "[JString ''1970-01-01T00:00:00Z'', JString '''',
                               JString ''not a date'', JString ''1970-01-01T00:00:00Z'']"
               and temperatures = "[JNumber 20, JNumber 21, JNumber 5, JNull]"
               and bad = "JString ''x''"
               and before = "[JArray [JNumber 2000, JNumber 7]]"
               and after = "[JArray [JNumber 3000], JArray [JNumber 1000, JNumber 5]]"
               and prices = "[]"]
          t f
    by (simp add: weatherEntryMissing_def cryptoLoop_def cryptoStep_def plainHost_def pt_def
        Let_def)
qed

section \<open>Properties: rounding to a double\<close>

lemma roundEven_of_int: "roundEven (of_int k) = k"
  by (simp add: roundEven_def)

lemma roundEven_floor: "\<lfloor>x\<rfloor> \<le> roundEven x \<and> roundEven x \<le> \<lfloor>x\<rfloor> + 1"
  by (simp add: roundEven_def Let_def)

lemma roundEven_mono:
  assumes "x \<le> y"
  shows "roundEven x \<le> roundEven y"
proof (cases "\<lfloor>x\<rfloor> = \<lfloor>y\<rfloor>")
  case True
  then show ?thesis
    using assms by (simp add: roundEven_def Let_def)
next
  case False
  then have "\<lfloor>x\<rfloor> < \<lfloor>y\<rfloor>"
    using floor_mono [OF assms] by simp
  then show ?thesis
    using roundEven_floor [of x] roundEven_floor [of y] by linarith
qed

lemma roundEven_eqI:
  assumes "of_int n - 1 / 2 < x" "x < of_int n + 1 / 2"
  shows "roundEven x = n"
proof -
  have "\<lfloor>x\<rfloor> = n \<or> \<lfloor>x\<rfloor> = n - 1"
    using assms by linarith
  then show ?thesis
  proof
    assume f: "\<lfloor>x\<rfloor> = n"
    then show ?thesis using assms by (simp add: roundEven_def Let_def)
  next
    assume f: "\<lfloor>x\<rfloor> = n - 1"
    then have "x - of_int (n - 1) > 1 / 2" using assms by simp
    then show ?thesis using f by (simp add: roundEven_def Let_def)
  qed
qed

lemma roundEven_uminus: "roundEven (- x) = - roundEven x"
proof (cases "x = of_int \<lfloor>x\<rfloor>")
  case True
  then obtain k where k: "x = of_int k" ..
  have "roundEven (- of_int k) = - k"
    using roundEven_of_int [of "- k"] by simp
  then show ?thesis by (simp add: k roundEven_of_int)
next
  case False
  then have lt: "of_int \<lfloor>x\<rfloor> < x" using of_int_floor_le [of x] by linarith
  have fl: "\<lfloor>- x\<rfloor> = - \<lfloor>x\<rfloor> - 1"
    using lt by linarith
  show ?thesis
    unfolding roundEven_def Let_def fl using lt by (auto simp: algebra_simps)
qed

lemma roundEven_dist: "\<bar>of_int (roundEven x) - x\<bar> \<le> 1 / 2"
  unfolding roundEven_def Let_def by (auto; linarith)

lemma two_powi_pos: "0 < (2::real) powi k"
  by simp

lemma floor_log2_eq:
  assumes "2 powi e \<le> x" "x < 2 powi (e + 1)"
  shows "\<lfloor>log 2 x\<rfloor> = e"
proof -
  have pos: "0 < x" using assms(1) two_powi_pos [of e] by linarith
  have a: "2 powr (real_of_int e) \<le> x" using assms(1) by (simp add: powr_real_of_int')
  have "2 powr (real_of_int (e + 1)) = (2::real) powi (e + 1)"
    by (simp add: powr_real_of_int' del: of_int_add)
  then have b: "x < 2 powr (real_of_int e + 1)" using assms(2) by simp
  show ?thesis using a b pos by (simp add: floor_log_eq_powr_iff)
qed

lemma floor_log2_bounds:
  assumes "0 < x"
  shows "2 powi \<lfloor>log 2 x\<rfloor> \<le> x \<and> x < 2 powi (\<lfloor>log 2 x\<rfloor> + 1)"
proof -
  have "2 powr (real_of_int \<lfloor>log 2 x\<rfloor>) \<le> x \<and> x < 2 powr (real_of_int \<lfloor>log 2 x\<rfloor> + 1)"
    using floor_log_eq_powr_iff [of x 2 "\<lfloor>log 2 x\<rfloor>"] assms by simp
  moreover have "2 powr (real_of_int (\<lfloor>log 2 x\<rfloor> + 1)) = (2::real) powi (\<lfloor>log 2 x\<rfloor> + 1)"
    by (simp add: powr_real_of_int' del: of_int_add)
  ultimately show ?thesis by (simp add: powr_real_of_int')
qed

lemma ulpExp_eq:
  assumes "2 powi e \<le> \<bar>x\<bar>" "\<bar>x\<bar> < 2 powi (e + 1)" "- 1022 \<le> e"
  shows "ulpExp x = e - 52"
  using floor_log2_eq [OF assms(1,2)] assms(3) by (simp add: ulpExp_def)

lemma ulpExp_uminus: "ulpExp (- x) = ulpExp x"
  by (simp add: ulpExp_def)

lemma ulpExp_ge: "- 1074 \<le> ulpExp x"
  by (simp add: ulpExp_def)

text \<open>Below the next power of two, and above the previous one for a normal number.\<close>

lemma ulpExp_upper:
  assumes "x \<noteq> 0"
  shows "\<bar>x\<bar> < 2 powi (ulpExp x + 53)"
proof -
  have "\<bar>x\<bar> < 2 powi (\<lfloor>log 2 \<bar>x\<bar>\<rfloor> + 1)"
    using floor_log2_bounds [of "\<bar>x\<bar>"] assms by simp
  also have "\<dots> \<le> 2 powi (ulpExp x + 53)"
    by (rule power_int_increasing) (simp_all add: ulpExp_def)
  finally show ?thesis .
qed

lemma ulpExp_lower:
  assumes "x \<noteq> 0" "- 1074 < ulpExp x"
  shows "2 powi (ulpExp x + 52) \<le> \<bar>x\<bar>"
proof -
  have "ulpExp x + 52 = \<lfloor>log 2 \<bar>x\<bar>\<rfloor>"
    using assms(2) by (simp add: ulpExp_def max_def split: if_splits)
  then show ?thesis
    using floor_log2_bounds [of "\<bar>x\<bar>"] assms(1) by simp
qed

lemma ulpExp_mono:
  assumes "x \<noteq> 0" "\<bar>x\<bar> \<le> \<bar>y\<bar>"
  shows "ulpExp x \<le> ulpExp y"
proof -
  have "log 2 \<bar>x\<bar> \<le> log 2 \<bar>y\<bar>"
    using assms by simp
  then have "\<lfloor>log 2 \<bar>x\<bar>\<rfloor> \<le> \<lfloor>log 2 \<bar>y\<bar>\<rfloor>"
    by (rule floor_mono)
  then show ?thesis by (simp add: ulpExp_def)
qed

lemma nearest_uminus: "nearest (- x) = - nearest x"
  by (simp add: nearest_def ulpExp_uminus roundEven_uminus)

lemma nearest_nonneg:
  assumes "0 \<le> x"
  shows "0 \<le> nearest x"
proof -
  have "0 \<le> x / 2 powi ulpExp x" using assms by simp
  then have "roundEven 0 \<le> roundEven (x / 2 powi ulpExp x)" by (rule roundEven_mono)
  then have "0 \<le> roundEven (x / 2 powi ulpExp x)"
    using roundEven_of_int [of 0] by simp
  then show ?thesis by (simp add: nearest_def)
qed

lemma nearest_upper:
  assumes "x \<noteq> 0"
  shows "nearest x \<le> 2 powi (ulpExp x + 53)"
proof -
  have "x / 2 powi ulpExp x \<le> \<bar>x\<bar> / 2 powi ulpExp x"
    by (simp add: divide_right_mono)
  also have "\<dots> \<le> 2 powi (ulpExp x + 53) / 2 powi ulpExp x"
    using ulpExp_upper [OF assms] by (simp add: divide_right_mono)
  also have "\<dots> = 2 ^ 53"
    by (simp add: power_int_add)
  finally have "roundEven (x / 2 powi ulpExp x) \<le> roundEven (of_int (2 ^ 53))"
    by (intro roundEven_mono) simp
  then have "roundEven (x / 2 powi ulpExp x) \<le> 2 ^ 53"
    by (simp only: roundEven_of_int)
  then have "real_of_int (roundEven (x / 2 powi ulpExp x)) \<le> 2 ^ 53"
    by (metis of_int_le_iff of_int_numeral of_int_power)
  then have "nearest x \<le> 2 ^ 53 * 2 powi ulpExp x"
    unfolding nearest_def by (intro mult_right_mono) simp_all
  also have "\<dots> = 2 powi (ulpExp x + 53)"
    by (simp add: power_int_add)
  finally show ?thesis .
qed

lemma nearest_lower:
  assumes "0 < x" "- 1074 < ulpExp x"
  shows "2 powi (ulpExp x + 52) \<le> nearest x"
proof -
  have "2 powi (ulpExp x + 52) \<le> x"
    using ulpExp_lower [of x] assms by simp
  then have "2 powi (ulpExp x + 52) / 2 powi ulpExp x \<le> x / 2 powi ulpExp x"
    by (simp add: divide_right_mono)
  moreover have "2 powi (ulpExp x + 52) / 2 powi ulpExp x = (2::real) ^ 52"
    by (simp add: power_int_add)
  ultimately have "roundEven (of_int (2 ^ 52)) \<le> roundEven (x / 2 powi ulpExp x)"
    by (intro roundEven_mono) simp
  then have "2 ^ 52 \<le> roundEven (x / 2 powi ulpExp x)"
    by (simp only: roundEven_of_int)
  then have "(2::real) ^ 52 \<le> real_of_int (roundEven (x / 2 powi ulpExp x))"
    by (metis of_int_le_iff of_int_numeral of_int_power)
  then have "2 ^ 52 * 2 powi ulpExp x \<le> nearest x"
    unfolding nearest_def by (intro mult_right_mono) simp_all
  moreover have "(2::real) ^ 52 * 2 powi ulpExp x = 2 powi (ulpExp x + 52)"
    by (simp add: power_int_add)
  ultimately show ?thesis by simp
qed

lemma nearest_mono_pos:
  assumes "0 < x" "x \<le> y"
  shows "nearest x \<le> nearest y"
proof -
  have le: "ulpExp x \<le> ulpExp y"
    using assms by (intro ulpExp_mono) simp_all
  show ?thesis
  proof (cases "ulpExp x = ulpExp y")
    case True
    have "x / 2 powi ulpExp y \<le> y / 2 powi ulpExp y"
      using assms(2) by (simp add: divide_right_mono)
    then have "roundEven (x / 2 powi ulpExp y) \<le> roundEven (y / 2 powi ulpExp y)"
      by (rule roundEven_mono)
    then show ?thesis
      unfolding nearest_def True by (intro mult_right_mono) simp_all
  next
    case False
    then have lt: "ulpExp x + 1 \<le> ulpExp y" using le by simp
    have "nearest x \<le> 2 powi (ulpExp x + 53)"
      using nearest_upper [of x] assms(1) by simp
    also have "\<dots> \<le> 2 powi (ulpExp y + 52)"
      by (rule power_int_increasing) (use lt in simp_all)
    also have "\<dots> \<le> nearest y"
      using nearest_lower [of y] assms lt ulpExp_ge [of x] by simp
    finally show ?thesis .
  qed
qed

lemma nearest_0: "nearest 0 = 0"
  using roundEven_of_int [of 0] by (simp add: nearest_def)

lemma nearest_mono:
  assumes "x \<le> y"
  shows "nearest x \<le> nearest y"
proof -
  consider "0 < x" | "x \<le> 0" "0 \<le> y" | "y < 0" by linarith
  then show ?thesis
  proof cases
    case 1
    then show ?thesis using nearest_mono_pos assms by simp
  next
    case 2
    have "nearest x \<le> 0"
      using nearest_nonneg [of "- x"] 2(1) by (simp add: nearest_uminus)
    then show ?thesis using nearest_nonneg [OF 2(2)] by simp
  next
    case 3
    then have "nearest (- y) \<le> nearest (- x)"
      using assms by (intro nearest_mono_pos) simp_all
    then show ?thesis by (simp add: nearest_uminus)
  qed
qed

text \<open>Rounding is monotone, and keeps a finite result finite below a finite one.\<close>

lemma rd_Finite_nearest: "rd x = Finite r \<Longrightarrow> r = nearest x \<and> \<bar>nearest x\<bar> < 2 ^ 1024"
  by (cases "x = 0") (auto simp: rd_def nearest_0 split: if_splits)

lemma rd_between:
  assumes "0 \<le> a" "a \<le> b" "rd b = Finite r"
  shows "\<exists>q. rd a = Finite q \<and> 0 \<le> q \<and> q \<le> r"
proof -
  have r: "r = nearest b" "\<bar>nearest b\<bar> < 2 ^ 1024"
    using rd_Finite_nearest [OF assms(3)] by simp_all
  have "0 \<le> nearest a" "nearest a \<le> nearest b"
    using nearest_nonneg [OF assms(1)] nearest_mono [OF assms(2)] by simp_all
  then have "rd a = Finite (nearest a)" "0 \<le> nearest a" "nearest a \<le> r"
    using r by (simp_all add: rd_def nearest_0)
  then show ?thesis by blast
qed

text \<open>A real that is a double is rounded to itself.\<close>

lemma nearest_exact:
  assumes "x = of_int m * 2 powi k" "\<bar>m\<bar> < 2 ^ 53" "- 1074 \<le> k"
  shows "nearest x = x"
proof (cases "x = 0")
  case True
  then show ?thesis by (simp add: nearest_0)
next
  case False
  have le: "ulpExp x \<le> k"
  proof (cases "ulpExp x = - 1074")
    case True
    then show ?thesis using assms(3) by simp
  next
    case False
    then have "2 powi (ulpExp x + 52) \<le> \<bar>x\<bar>"
      using ulpExp_lower [of x] \<open>x \<noteq> 0\<close> ulpExp_ge [of x] by simp
    also have "\<bar>x\<bar> = \<bar>of_int m\<bar> * 2 powi k"
      by (simp add: assms(1) abs_mult)
    also have "\<dots> < 2 ^ 53 * 2 powi k"
    proof -
      have "\<bar>real_of_int m\<bar> < 2 ^ 53"
        using assms(2) by (metis of_int_abs of_int_less_iff of_int_numeral of_int_power)
      then show ?thesis by (intro mult_strict_right_mono) simp_all
    qed
    also have "\<dots> = 2 powi (k + 53)"
      by (simp add: power_int_add)
    finally have lt: "(2::real) powi (ulpExp x + 52) < 2 powi (k + 53)" .
    have "\<not> k + 53 \<le> ulpExp x + 52"
    proof
      assume "k + 53 \<le> ulpExp x + 52"
      then have "(2::real) powi (k + 53) \<le> 2 powi (ulpExp x + 52)"
        by (intro power_int_increasing) simp_all
      then show False using lt by simp
    qed
    then show ?thesis by simp
  qed
  define e where "e = ulpExp x"
  obtain d where d: "k = e + int d"
    using le unfolding e_def by (metis zle_iff_zadd)
  have x: "x = of_int (m * 2 ^ d) * 2 powi e"
    by (simp add: assms(1) d power_int_add)
  have "x / 2 powi e = of_int (m * 2 ^ d)"
    unfolding x by simp
  then have "roundEven (x / 2 powi e) = m * 2 ^ d"
    by (simp only: roundEven_of_int)
  then have "nearest x = of_int (m * 2 ^ d) * 2 powi e"
    unfolding nearest_def e_def by simp
  then show ?thesis using x by simp
qed

lemma rd_exact:
  assumes "x = of_int m * 2 powi k" "\<bar>m\<bar> < 2 ^ 53" "- 1074 \<le> k" "\<bar>x\<bar> < 2 ^ 1024"
  shows "rd x = Finite x"
  using nearest_exact [OF assms(1,2,3)] assms(4) by (simp add: rd_def)

lemma rd_of_int:
  assumes "\<bar>m\<bar> < 2 ^ 53"
  shows "rd (of_int m) = Finite (of_int m)"
proof (rule rd_exact [where m = m and k = 0])
  have "\<bar>real_of_int m\<bar> < 2 ^ 53"
    using assms by (metis of_int_abs of_int_less_iff of_int_numeral of_int_power)
  also have "(2::real) ^ 53 \<le> 2 ^ 1024"
    by (rule power_increasing) simp_all
  finally show "\<bar>real_of_int m\<bar> < 2 ^ 1024" .
qed (use assms in simp_all)

lemma rd_of_nat:
  assumes "n < 2 ^ 53"
  shows "rd (real n) = Finite (real n)"
  using rd_of_int [of "int n"] assms by simp

text \<open>The rounding of a real inside a binade, from its rounded significand.\<close>

lemma rd_eqI:
  assumes "2 powi e \<le> \<bar>x\<bar>" "\<bar>x\<bar> < 2 powi (e + 1)" "- 1022 \<le> e"
    and "roundEven (x / 2 powi (e - 52)) = n"
    and "\<bar>of_int n * 2 powi (e - 52)\<bar> < (2::real) ^ 1024"
  shows "rd x = Finite (of_int n * 2 powi (e - 52))"
proof -
  have "x \<noteq> 0" using assms(1) two_powi_pos [of e] by linarith
  then show ?thesis
    using assms(4,5) by (simp add: rd_def nearest_def ulpExp_eq [OF assms(1,2,3)])
qed

lemma rd_overflowI:
  assumes "2 powi e \<le> x" "x < 2 powi (e + 1)" "- 1022 \<le> e"
    and "roundEven (x / 2 powi (e - 52)) = n"
    and "(2::real) ^ 1024 \<le> of_int n * 2 powi (e - 52)"
  shows "rd x = PInf"
proof -
  have pos: "0 < x" using assms(1) two_powi_pos [of e] by linarith
  then have "ulpExp x = e - 52"
    using ulpExp_eq [of e x] assms(1,2,3) by simp
  then show ?thesis
    using assms(4,5) pos by (simp add: rd_def nearest_def)
qed

lemma rd_sqrt_eqI:
  assumes "(2 powi e)\<^sup>2 \<le> v" "v < (2 powi (e + 1))\<^sup>2" "- 1022 \<le> e"
    and "((of_int n - 1 / 2) * 2 powi (e - 52))\<^sup>2 < v"
    and "v < ((of_int n + 1 / 2) * 2 powi (e - 52))\<^sup>2"
    and "0 < n"
    and "\<bar>of_int n * 2 powi (e - 52)\<bar> < (2::real) ^ 1024"
  shows "rd (sqrt v) = Finite (of_int n * 2 powi (e - 52))"
proof (rule rd_eqI [OF _ _ assms(3) _ assms(7)])
  have v: "0 \<le> v" using assms(1) zero_le_power2 [of "(2::real) powi e"] by linarith
  have a: "2 powi e \<le> sqrt v"
    using assms(1) by (intro real_le_rsqrt) simp
  have b: "sqrt v < 2 powi (e + 1)"
    using assms(2) v by (intro real_less_lsqrt) simp_all
  show "2 powi e \<le> \<bar>sqrt v\<bar>" "\<bar>sqrt v\<bar> < 2 powi (e + 1)"
    using a b v by simp_all
  have n: "0 \<le> (of_int n - 1 / 2) * (2::real) powi (e - 52)"
    using assms(6) by (intro mult_nonneg_nonneg) simp_all
  have c: "(of_int n - 1 / 2) * 2 powi (e - 52) < sqrt v"
    using assms(4) n by (intro real_less_rsqrt) simp
  have n': "0 \<le> (of_int n + 1 / 2) * (2::real) powi (e - 52)"
    using assms(6) by (intro mult_nonneg_nonneg) simp_all
  have d: "sqrt v < (of_int n + 1 / 2) * 2 powi (e - 52)"
    using assms(5) v n' by (intro real_less_lsqrt) simp_all
  have "of_int n - 1 / 2 < sqrt v / 2 powi (e - 52)" "sqrt v / 2 powi (e - 52) < of_int n + 1 / 2"
    using c d by (simp_all add: pos_less_divide_eq pos_divide_less_eq)
  then show "roundEven (sqrt v / 2 powi (e - 52)) = n"
    by (rule roundEven_eqI)
qed

lemma rd_not_NaN: "rd x \<noteq> NaN"
  by (simp add: rd_def)

lemma rd_0: "rd 0 = Finite 0"
  by (simp add: rd_def)

lemma rd_1: "rd 1 = Finite 1"
  using rd_of_int [of 1] by simp

lemma rd_numeral: "numeral k < (2::int) ^ 53 \<Longrightarrow> rd (numeral k) = Finite (numeral k)"
  using rd_of_int [of "numeral k"] by simp

lemma rd_neg_numeral:
  "numeral k < (2::int) ^ 53 \<Longrightarrow> rd (- numeral k) = Finite (- numeral k)"
  using rd_of_int [of "- numeral k"] by simp

lemma rd_power2:
  assumes "k < 1024"
  shows "rd (2 ^ k) = Finite (2 ^ k)"
proof (rule rd_exact [where m = 1 and k = "int k"])
  have "(2::real) ^ k < 2 ^ 1024"
    using assms by (intro power_strict_increasing) simp_all
  then show "\<bar>(2::real) ^ k\<bar> < 2 ^ 1024"
    by simp
qed simp_all

lemma rd_overflow:
  assumes "2 ^ 1024 \<le> x"
  shows "rd x = PInf"
proof -
  have pos: "0 < x"
    using assms zero_less_power [of "2::real" 1024] by linarith
  have p: "(2::real) powi 1024 \<le> x"
    using assms by simp
  have "\<not> \<lfloor>log 2 x\<rfloor> < 1024"
  proof
    assume "\<lfloor>log 2 x\<rfloor> < 1024"
    then have "\<lfloor>log 2 x\<rfloor> + 1 \<le> 1024" by simp
    then have "(2::real) powi (\<lfloor>log 2 x\<rfloor> + 1) \<le> 2 powi 1024"
      by (intro power_int_increasing) simp_all
    then show False
      using floor_log2_bounds [OF pos] p by linarith
  qed
  then have e: "972 \<le> ulpExp x"
    using pos by (simp add: ulpExp_def)
  have "(2::real) powi 1024 \<le> 2 powi (ulpExp x + 52)"
    by (rule power_int_increasing) (use e in simp_all)
  also have "\<dots> \<le> nearest x"
    using nearest_lower [of x] pos e by simp
  finally have "2 ^ 1024 \<le> \<bar>nearest x\<bar>" by simp
  then show ?thesis using pos by (simp add: rd_def)
qed

lemma nearest_nonpos: "x \<le> 0 \<Longrightarrow> nearest x \<le> 0"
  using nearest_nonneg [of "- x"] by (simp add: nearest_uminus)

lemma rd_pos_cases:
  assumes "0 < x"
  shows "rd x = PInf \<or> (\<exists>q. rd x = Finite q \<and> 0 \<le> q)"
  using assms nearest_nonneg [of x] by (simp add: rd_def)

lemma rd_nonpos_cases:
  assumes "x \<le> 0"
  shows "rd x = NInf \<or> (\<exists>q. rd x = Finite q \<and> q \<le> 0)"
  using assms nearest_nonpos [of x] by (auto simp: rd_def)


section \<open>Properties: comparison of doubles\<close>

lemma lt64_Finite: "lt64 (Finite x) (Finite y) = (x < y)"
  by (simp add: lt64_def)

lemma le64_Finite: "le64 (Finite x) (Finite y) = (x \<le> y)"
  by (auto simp: le64_def lt64_def)

lemma lt64_key: "a \<noteq> NaN \<Longrightarrow> b \<noteq> NaN \<Longrightarrow> lt64 a b = (timeKey a < timeKey b)"
  by (cases a; cases b) (simp_all add: lt64_def timeKey_def)

lemma le64_key: "a \<noteq> NaN \<Longrightarrow> b \<noteq> NaN \<Longrightarrow> le64 a b = (timeKey a \<le> timeKey b)"
  by (cases a; cases b) (auto simp: le64_def lt64_def timeKey_def)

lemma le64_not_NaN: "le64 a b \<Longrightarrow> a \<noteq> NaN \<and> b \<noteq> NaN"
  by (cases a; cases b) (simp_all add: le64_def lt64_def)

lemma le64_trans: "le64 a b \<Longrightarrow> le64 b c \<Longrightarrow> le64 a c"
  using le64_not_NaN [of a b] le64_not_NaN [of b c] by (auto simp: le64_key)

lemma le64_Finite_left: "le64 (Finite x) b \<Longrightarrow> b = PInf \<or> (\<exists>y. b = Finite y \<and> x \<le> y)"
  by (cases b) (auto simp: le64_def lt64_def)

lemma le64_Finite_right: "le64 a (Finite y) \<Longrightarrow> a = NInf \<or> (\<exists>x. a = Finite x \<and> x \<le> y)"
  by (cases a) (auto simp: le64_def lt64_def)

section \<open>Properties: canonical series\<close>

lemma fold_min64_bound:
  "fold (\<lambda>v m. if m = NaN \<or> v = NaN then NaN else if lt64 v m then v else m) vals m = r \<Longrightarrow>
   r \<noteq> NaN \<Longrightarrow> le64 r m \<and> (\<forall>v\<in>set vals. le64 r v)"
proof (induction vals arbitrary: m)
  case Nil
  then show ?case by (auto simp: le64_def)
next
  case (Cons v vals)
  let ?m' = "if m = NaN \<or> v = NaN then NaN else if lt64 v m then v else m"
  have ih: "le64 r ?m' \<and> (\<forall>x\<in>set vals. le64 r x)"
    using Cons.IH [of ?m'] Cons.prems by simp
  then have nn: "m \<noteq> NaN" "v \<noteq> NaN"
    using le64_not_NaN [of r ?m'] by (auto split: if_splits)
  have "le64 ?m' m \<and> le64 ?m' v"
    using nn by (auto simp: le64_key lt64_key)
  then show ?case
    using ih le64_trans [of r ?m'] by auto
qed

lemma fold_max64_bound:
  "fold (\<lambda>v m. if m = NaN \<or> v = NaN then NaN else if lt64 m v then v else m) vals m = r \<Longrightarrow>
   r \<noteq> NaN \<Longrightarrow> le64 m r \<and> (\<forall>v\<in>set vals. le64 v r)"
proof (induction vals arbitrary: m)
  case Nil
  then show ?case by (auto simp: le64_def)
next
  case (Cons v vals)
  let ?m' = "if m = NaN \<or> v = NaN then NaN else if lt64 m v then v else m"
  have ih: "le64 ?m' r \<and> (\<forall>x\<in>set vals. le64 x r)"
    using Cons.IH [of ?m'] Cons.prems by simp
  then have nn: "m \<noteq> NaN" "v \<noteq> NaN"
    using le64_not_NaN [of ?m' r] by (auto split: if_splits)
  have "le64 m ?m' \<and> le64 v ?m'"
    using nn by (auto simp: le64_key lt64_key)
  then show ?case
    using ih le64_trans [of _ ?m' r] by auto
qed



lemma Math_min64_le: "Math_min64 vals \<noteq> NaN \<Longrightarrow> v \<in> set vals \<Longrightarrow> le64 (Math_min64 vals) v"
  using fold_min64_bound [of vals PInf "Math_min64 vals"] by (simp add: Math_min64_def)

lemma Math_max64_ge: "Math_max64 vals \<noteq> NaN \<Longrightarrow> v \<in> set vals \<Longrightarrow> le64 v (Math_max64 vals)"
  using fold_max64_bound [of vals NInf "Math_max64 vals"] by (simp add: Math_max64_def)





lemma calculateMetadata_min: "vals \<noteq> [] \<Longrightarrow> min64 (calculateMetadata vals u) = Math_min64 vals"
  by (simp add: calculateMetadata_def Let_def)

lemma calculateMetadata_max: "vals \<noteq> [] \<Longrightarrow> max64 (calculateMetadata vals u) = Math_max64 vals"
  by (simp add: calculateMetadata_def Let_def)



lemma limitDataPoints_drop: "limitDataPoints dps n = drop (length dps - n) dps"
  by (simp add: limitDataPoints_def)

lemma metadata_finish:
  "metadata64 (finishTimeSeries name u cfg collected) =
     calculateMetadata
       (map value64 (limitDataPoints (sort_key (\<lambda>dp. timeKey (timestamp64 dp)) collected) 100)) u"
  by (simp add: finishTimeSeries_def Let_def)

lemma dataPoints_finish:
  "dataPoints64 (finishTimeSeries name u cfg collected) =
     (let dps = limitDataPoints (sort_key (\<lambda>dp. timeKey (timestamp64 dp)) collected) 100;
          md = calculateMetadata (map value64 dps) u
      in if normalize cfg \<and> dps \<noteq> [] \<and> lt64 (Finite 0) (sub64 (max64 md) (min64 md))
         then map (\<lambda>dp. dp\<lparr> value64 := div64 (sub64 (originalValue64 dp) (min64 md))
                                          (sub64 (max64 md) (min64 md)) \<rparr>) dps
         else dps)"
  by (simp add: finishTimeSeries_def Let_def)

lemma core_finish:
  "map pointCore (dataPoints64 (finishTimeSeries name u cfg collected)) =
     map pointCore (limitDataPoints (sort_key (\<lambda>dp. timeKey (timestamp64 dp)) collected) 100)"
  by (simp add: dataPoints_finish Let_def pointCore_def comp_def)





lemma add64_Finite_cases:
  "add64 a b = Finite r \<Longrightarrow> \<exists>x y. a = Finite x \<and> b = Finite y \<and> rd (x + y) = Finite r"
  by (cases a; cases b) (simp_all add: add64_def)

lemma sub64_Finite_cases:
  "sub64 a b = Finite r \<Longrightarrow> \<exists>x y. a = Finite x \<and> b = Finite y \<and> rd (x - y) = Finite r"
  using add64_Finite_cases [of a "neg64 b" r]
  by (cases b) (auto simp: sub64_def neg64_def)

lemma sub64_Finite: "sub64 (Finite x) (Finite y) = rd (x - y)"
  by (simp add: sub64_def neg64_def add64_def)

lemma div64_Finite: "y \<noteq> 0 \<Longrightarrow> div64 (Finite x) (Finite y) = rd (x / y)"
  by (simp add: div64_def)

lemma lt64_zero_cases:
  "lt64 (Finite 0) a \<Longrightarrow> a = PInf \<or> (\<exists>r. a = Finite r \<and> 0 < r)"
  by (cases a) (simp_all add: lt64_def)

lemma sub64_same_not_positive: "\<not> lt64 (Finite 0) (sub64 m m)"
  by (cases m) (simp_all add: sub64_def neg64_def add64_def rd_0 lt64_def)

text \<open>
  A value between \<open>min\<close> and \<open>max\<close> is normalized into \<open>[0, 1]\<close> when the
  difference \<open>max - min\<close> is positive and finite.
\<close>

lemma normalized_in_unit_interval:
  assumes "sub64 mx mn = Finite r" "0 < r" "le64 mn v" "le64 v mx"
  shows "\<exists>q. div64 (sub64 v mn) (sub64 mx mn) = Finite q \<and> 0 \<le> q \<and> q \<le> 1"
proof -
  obtain x m where xm: "mx = Finite x" "mn = Finite m" "rd (x - m) = Finite r"
    using sub64_Finite_cases [OF assms(1)] by blast
  obtain y where y: "v = Finite y" "m \<le> y" "y \<le> x"
    using le64_Finite_left [of m v] le64_Finite_right [of v x] assms(3,4) xm(1,2) by auto
  obtain a where a: "rd (y - m) = Finite a" "0 \<le> a" "a \<le> r"
    using rd_between [of "y - m" "x - m" r] y(2,3) xm(3) by auto
  have "0 \<le> a / r" "a / r \<le> 1"
    using a assms(2) by simp_all
  then obtain q where q: "rd (a / r) = Finite q" "0 \<le> q" "q \<le> 1"
    using rd_between [of "a / r" 1 1] rd_1 by auto
  have "div64 (sub64 v mn) (sub64 mx mn) = Finite q"
    using assms(2) unfolding xm(1,2) y(1)
    by (simp add: sub64_Finite xm(3) a(1) div64_Finite q(1))
  then show ?thesis using q by blast
qed

lemma finish_normalization:
  assumes "collectedPoints collected"
  shows "normalizationOutcome cfg (finishTimeSeries name u cfg collected)"
proof -
  let ?ts = "finishTimeSeries name u cfg collected"
  let ?lim = "limitDataPoints (sort_key (\<lambda>dp. timeKey (timestamp64 dp)) collected) 100"
  let ?md = "calculateMetadata (map value64 ?lim) u"
  let ?mn = "min64 ?md" and ?mx = "max64 ?md"
  let ?f = "\<lambda>dp. dp\<lparr> value64 := div64 (sub64 (originalValue64 dp) ?mn) (sub64 ?mx ?mn) \<rparr>"
  have md: "metadata64 ?ts = ?md" by (rule metadata_finish)
  have sub: "set ?lim \<subseteq> set collected"
    unfolding limitDataPoints_drop
    using set_drop_subset [of _ "sort_key (\<lambda>dp. timeKey (timestamp64 dp)) collected"] by simp
  have cp: "value64 dp = originalValue64 dp \<and> originalValue64 dp \<noteq> NaN" if "dp \<in> set ?lim" for dp
  proof -
    have "dp \<in> set collected" using that sub by blast
    then have "value64 dp = originalValue64 dp \<and> value64 dp \<noteq> NaN"
      using assms unfolding collectedPoints_def by blast
    then show ?thesis by metis
  qed
  have a: "normalize cfg \<and> dataPoints64 ?ts \<noteq> [] \<and>
           lt64 (Finite 0) (sub64 (max64 (metadata64 ?ts)) (min64 (metadata64 ?ts))) \<and>
           sub64 (max64 (metadata64 ?ts)) (min64 (metadata64 ?ts)) \<noteq> PInf \<longrightarrow>
            (\<forall>dp\<in>set (dataPoints64 ?ts).
               value64 dp = div64 (sub64 (originalValue64 dp) (min64 (metadata64 ?ts)))
                              (sub64 (max64 (metadata64 ?ts)) (min64 (metadata64 ?ts))) \<and>
               le64 (Finite 0) (value64 dp) \<and> le64 (value64 dp) (Finite 1))"
  proof (intro impI ballI, elim conjE)
    fix dp
    assume n: "normalize cfg" and ne: "dataPoints64 ?ts \<noteq> []"
      and pos: "lt64 (Finite 0) (sub64 (max64 (metadata64 ?ts)) (min64 (metadata64 ?ts)))"
      and fin: "sub64 (max64 (metadata64 ?ts)) (min64 (metadata64 ?ts)) \<noteq> PInf"
      and dp: "dp \<in> set (dataPoints64 ?ts)"
    have pos': "lt64 (Finite 0) (sub64 ?mx ?mn)" using pos by (simp add: md)
    obtain r where r: "sub64 ?mx ?mn = Finite r" "0 < r"
      using lt64_zero_cases [OF pos'] fin by (auto simp: md)
    have ne': "?lim \<noteq> []" using ne by (auto simp: dataPoints_finish Let_def split: if_splits)
    have "dataPoints64 ?ts = map ?f ?lim"
      using n ne' pos' by (simp add: dataPoints_finish Let_def)
    then obtain d where d: "d \<in> set ?lim" "dp = ?f d"
      using dp by auto
    have v: "value64 dp = div64 (sub64 (originalValue64 dp) ?mn) (sub64 ?mx ?mn)"
      by (simp add: d(2))
    have vne: "map value64 ?lim \<noteq> []" using ne' by simp
    have mem: "originalValue64 d \<in> set (map value64 ?lim)"
      using d(1) cp [OF d(1)] by (auto simp: image_iff intro!: bexI [of _ d])
    obtain x m where xm: "?mx = Finite x" "?mn = Finite m"
      using sub64_Finite_cases [OF r(1)] by blast
    have "Math_min64 (map value64 ?lim) \<noteq> NaN" "Math_max64 (map value64 ?lim) \<noteq> NaN"
      using xm by (simp_all add: calculateMetadata_min [OF vne] calculateMetadata_max [OF vne])
    then have "le64 ?mn (originalValue64 d)" "le64 (originalValue64 d) ?mx"
      using Math_min64_le [OF _ mem] Math_max64_ge [OF _ mem]
      by (simp_all add: calculateMetadata_min [OF vne] calculateMetadata_max [OF vne])
    then obtain q where q: "div64 (sub64 (originalValue64 d) ?mn) (sub64 ?mx ?mn) = Finite q"
      "0 \<le> q" "q \<le> 1"
      using normalized_in_unit_interval [OF r] by blast
    have "value64 dp = Finite q"
      using q(1) by (simp add: d(2))
    then show "value64 dp = div64 (sub64 (originalValue64 dp) (min64 (metadata64 ?ts)))
                              (sub64 (max64 (metadata64 ?ts)) (min64 (metadata64 ?ts))) \<and>
               le64 (Finite 0) (value64 dp) \<and> le64 (value64 dp) (Finite 1)"
      using v q(2,3) by (simp add: md le64_Finite)
  qed
  have b: "max64 (metadata64 ?ts) = min64 (metadata64 ?ts) \<longrightarrow>
            (\<forall>dp\<in>set (dataPoints64 ?ts). value64 dp = originalValue64 dp \<and> value64 dp \<noteq> NaN)"
  proof (intro impI ballI)
    fix dp
    assume e: "max64 (metadata64 ?ts) = min64 (metadata64 ?ts)" and dp: "dp \<in> set (dataPoints64 ?ts)"
    have "\<not> lt64 (Finite 0) (sub64 ?mx ?mn)"
      using e sub64_same_not_positive [of ?mn] by (simp add: md)
    then have "dataPoints64 ?ts = ?lim"
      by (simp add: dataPoints_finish Let_def)
    then show "value64 dp = originalValue64 dp \<and> value64 dp \<noteq> NaN" using dp cp by simp
  qed
  have c: "\<not> normalize cfg \<longrightarrow>
            (\<forall>dp\<in>set (dataPoints64 ?ts). value64 dp = originalValue64 dp \<and> value64 dp \<noteq> NaN)"
  proof (intro impI ballI)
    fix dp
    assume e: "\<not> normalize cfg" and dp: "dp \<in> set (dataPoints64 ?ts)"
    have "dataPoints64 ?ts = ?lim"
      using e by (simp add: dataPoints_finish Let_def)
    then show "value64 dp = originalValue64 dp \<and> value64 dp \<noteq> NaN" using dp cp by simp
  qed
  show ?thesis
    unfolding normalizationOutcome_def Let_def by (intro a b c conjI)
qed

lemma empty_normalization: "normalizationOutcome cfg (createEmptyTimeSeries64 name u)"
  by (simp add: normalizationOutcome_def createEmptyTimeSeries64_def)

lemma cryptoStep_values:
  "\<forall>dp\<in>set dps. dp_value dp = dp_originalValue dp \<Longrightarrow>
   \<forall>dp\<in>set (cryptoStep host pricePoint dps). dp_value dp = dp_originalValue dp"
  by (simp add: cryptoStep_def Let_def)

lemma fold_cryptoStep_values:
  "\<forall>dp\<in>set dps. dp_value dp = dp_originalValue dp \<Longrightarrow>
   \<forall>dp\<in>set (fold (cryptoStep host) prices dps). dp_value dp = dp_originalValue dp"
proof (induction prices arbitrary: dps)
  case Nil
  then show ?case by simp
next
  case (Cons pricePoint prices)
  show ?case
    using Cons.IH [OF cryptoStep_values [OF Cons.prems]] by simp
qed

lemma cryptoLoop_values: "\<forall>dp\<in>set (cryptoLoop host prices). dp_value dp = dp_originalValue dp"
  unfolding cryptoLoop_def by (rule fold_cryptoStep_values) simp

lemma cryptoLoop_collected: "collectedPoints (map asPoint64 (cryptoLoop host prices))"
  using cryptoLoop_values [of host prices] by (auto simp: collectedPoints_def asPoint64_def)

lemma mul64_Finite: "mul64 (Finite x) (Finite y) = rd (x * y)"
  by (simp add: mul64_def)

lemma airQualityStep_collected:
  "collectedPoints dps \<Longrightarrow> collectedPoints (airQualityStep host item dps)"
  by (auto simp: airQualityStep_def collectedPoints_def mul64_Finite rd_not_NaN
      split: option.splits)

lemma fold_airQualityStep_collected:
  "collectedPoints dps \<Longrightarrow> collectedPoints (fold (airQualityStep host) items dps)"
proof (induction items arbitrary: dps)
  case Nil
  then show ?case by simp
next
  case (Cons item items)
  show ?case
    using Cons.IH [OF airQualityStep_collected [OF Cons.prems]] by simp
qed

lemma airQualityLoop_collected: "collectedPoints (airQualityLoop host items)"
  unfolding airQualityLoop_def by (rule fold_airQualityStep_collected) (simp add: collectedPoints_def)

lemma normalizeCrypto_cases:
  "(cryptoExtracted host rawData = [] \<and>
      normalizeCrypto host rawData cfg = createEmptyTimeSeries64 ''Cryptocurrency'' ''USD'') \<or>
   (normalizeCrypto host rawData cfg =
      finishTimeSeries ''Cryptocurrency'' ''USD'' cfg (cryptoExtracted host rawData) \<and>
    collectedPoints (cryptoExtracted host rawData))"
  using cryptoLoop_collected by (simp add: normalizeCrypto_def cryptoExtracted_def)

lemma normalizeAirQuality_cases:
  "(airQualityExtracted host rawData = [] \<and>
      normalizeAirQuality host rawData cfg = createEmptyTimeSeries64 ''Air Quality'' ''AQI'') \<or>
   (normalizeAirQuality host rawData cfg =
      finishTimeSeries ''Air Quality'' ''AQI'' cfg (airQualityExtracted host rawData) \<and>
    collectedPoints (airQualityExtracted host rawData))"
  using airQualityLoop_collected
  by (cases rawData) (simp_all add: normalizeAirQuality_def airQualityExtracted_def)



lemma normalizeCrypto_normalization:
  "normalizationOutcome cfg (normalizeCrypto host rawData cfg)"
  using normalizeCrypto_cases [of host rawData cfg]
  by (auto simp: empty_normalization finish_normalization)

lemma normalizeAirQuality_normalization:
  "normalizationOutcome cfg (normalizeAirQuality host rawData cfg)"
  using normalizeAirQuality_cases [of host rawData cfg]
  by (auto simp: empty_normalization finish_normalization)

text \<open>
  Between two doubles, \<open>max - min\<close> rounds to a positive number exactly when
  \<open>max > min\<close>: a double is a multiple of \<open>2\<^sup>-\<^sup>1\<^sup>0\<^sup>7\<^sup>4\<close>, so the difference of
  two distinct doubles does not round to \<open>0\<close>.
\<close>

lemma isDouble_multiple:
  assumes "isDouble x"
  shows "\<exists>m. x = of_int m * minDouble"
proof -
  have "x = nearest x"
    using assms rd_Finite_nearest [of x x] by (simp add: isDouble_def)
  then have x: "x = of_int (roundEven (x / 2 powi ulpExp x)) * 2 powi ulpExp x"
    by (simp add: nearest_def)
  obtain d where d: "ulpExp x = - 1074 + int d"
    using ulpExp_ge [of x] by (metis zle_iff_zadd)
  have "(2::real) powi (- 1074 + int d) = 2 powi (- 1074) * 2 powi (int d)"
    by (rule power_int_add) simp
  then have "2 powi ulpExp x = of_int (2 ^ d) * minDouble"
    unfolding d minDouble_def by (simp only: power_int_of_nat of_int_power of_int_numeral mult.commute)
  then have "x = of_int (roundEven (x / 2 powi ulpExp x) * 2 ^ d) * minDouble"
    using x by (metis (no_types, lifting) mult.assoc of_int_mult)
  then show ?thesis ..
qed

lemma minDouble_pos: "0 < minDouble"
  unfolding minDouble_def by (rule two_powi_pos)

lemma nearest_minDouble: "nearest minDouble = minDouble"
  unfolding minDouble_def by (rule nearest_exact [where m = 1 and k = "- 1074"]) simp_all

lemma positive_range_iff:
  assumes "isDouble mn" "isDouble mx"
  shows "lt64 (Finite 0) (sub64 (Finite mx) (Finite mn)) \<longleftrightarrow> mn < mx"
proof
  assume p: "lt64 (Finite 0) (sub64 (Finite mx) (Finite mn))"
  show "mn < mx"
  proof (rule ccontr)
    assume "\<not> mn < mx"
    then have "mx - mn \<le> 0" by simp
    then show False
      using rd_nonpos_cases [of "mx - mn"] p by (auto simp: sub64_Finite lt64_def)
  qed
next
  assume lt: "mn < mx"
  obtain a b where ab: "mx = of_int a * minDouble" "mn = of_int b * minDouble"
    using isDouble_multiple assms by blast
  have "b < a"
    using lt minDouble_pos unfolding ab by (simp add: mult_less_cancel_right)
  then have "1 \<le> a - b" by simp
  then have "(1::real) \<le> of_int (a - b)"
    by (metis of_int_1 of_int_le_iff)
  then have "1 * minDouble \<le> of_int (a - b) * minDouble"
    using minDouble_pos by (intro mult_right_mono) simp_all
  also have "\<dots> = mx - mn"
    by (simp add: ab algebra_simps)
  finally have ge: "minDouble \<le> mx - mn" by simp
  have n: "0 < nearest (mx - mn)"
    using nearest_mono [OF ge] nearest_minDouble minDouble_pos by linarith
  show "lt64 (Finite 0) (sub64 (Finite mx) (Finite mn))"
    using n lt by (simp add: sub64_Finite rd_def lt64_def)
qed


lemma add64_Finite: "add64 (Finite x) (Finite y) = rd (x + y)"
  by (simp add: add64_def)

lemma lt64_simps:
  "lt64 NInf (Finite x)" "lt64 (Finite x) PInf" "lt64 NInf PInf"
  "\<not> lt64 (Finite x) NInf" "\<not> lt64 PInf (Finite x)" "\<not> lt64 PInf NInf"
  "\<not> lt64 NaN a" "\<not> lt64 a NaN" "\<not> lt64 a a"
  by (cases a; simp add: lt64_def)+

lemmas arith64 = add64_Finite sub64_Finite mul64_Finite div64_Finite rd_0 rd_1 rd_numeral
  rd_neg_numeral lt64_Finite le64_Finite num_def lt64_simps


lemma aqSample_result:
  "normalizeAirQuality plainHost aqSample \<lparr> normalize = True \<rparr> =
     \<lparr> sourceName64 = ''Air Quality'',
       dataPoints64 =
         [\<lparr> timestamp64 = Finite 1000000, value64 = Finite 0, originalValue64 = Finite 2,
            label64 = '''' \<rparr>,
          \<lparr> timestamp64 = Finite 2000000, value64 = Finite 1, originalValue64 = Finite 4,
            label64 = '''' \<rparr>],
       metadata64 = \<lparr> unit64 = ''AQI'', min64 = Finite 2, max64 = Finite 4, mean64 = Finite 3,
                      count64 = 2 \<rparr> \<rparr>"
  by (simp add: normalizeAirQuality_def aqSample_def airQualityLoop_def airQualityStep_def
      finishTimeSeries_def limitDataPoints_def calculateMetadata_def plainHost_def Let_def
      dateLabel64_def timeKey_def Math_min64_def Math_max64_def arith64)

lemma aqConstant_result:
  "normalizeAirQuality plainHost aqConstant \<lparr> normalize = True \<rparr> =
     \<lparr> sourceName64 = ''Air Quality'',
       dataPoints64 = [pt64 1000000 3, pt64 2000000 3],
       metadata64 = \<lparr> unit64 = ''AQI'', min64 = Finite 3, max64 = Finite 3, mean64 = Finite 3,
                      count64 = 2 \<rparr> \<rparr>"
  by (simp add: normalizeAirQuality_def aqConstant_def airQualityLoop_def airQualityStep_def
      finishTimeSeries_def limitDataPoints_def calculateMetadata_def plainHost_def Let_def
      dateLabel64_def timeKey_def Math_min64_def Math_max64_def pt64_def arith64)



lemma core_independent:
  "map pointCore (dataPoints64 (finishTimeSeries name u cfg collected)) =
   map pointCore (dataPoints64 (finishTimeSeries name u cfg' collected))"
  by (simp only: core_finish)

text \<open>The two payloads of huge prices.\<close>

lemma big_pos: "0 < big"
  by (simp add: big_def)

lemma rd_big: "rd big = Finite big"
  unfolding big_def by (rule rd_power2) simp

lemma rd_neg_big: "rd (- big) = Finite (- big)"
  unfolding big_def by (rule rd_exact [where m = "- 1" and k = 1023]) simp_all

lemma rd_big_big: "rd (2 * big) = PInf"
  unfolding big_def by (rule rd_overflow) simp

lemma oppositePrices_result:
  "normalizeCrypto plainHost oppositePrices \<lparr> normalize = True \<rparr> =
     \<lparr> sourceName64 = ''Cryptocurrency'',
       dataPoints64 =
         [\<lparr> timestamp64 = Finite 1000, value64 = Finite 0, originalValue64 = Finite (- big),
            label64 = '''' \<rparr>,
          \<lparr> timestamp64 = Finite 2000, value64 = NaN, originalValue64 = Finite big,
            label64 = '''' \<rparr>],
       metadata64 = \<lparr> unit64 = ''USD'', min64 = Finite (- big), max64 = Finite big,
                      mean64 = Finite 0, count64 = 2 \<rparr> \<rparr>"
proof -
  have e: "div64 (Finite 0) PInf = Finite 0" "div64 PInf PInf = NaN"
    by (simp_all add: div64_def)
  show ?thesis
    using big_pos
    by (simp add: normalizeCrypto_def oppositePrices_def cryptoLoop_def cryptoStep_def
      finishTimeSeries_def limitDataPoints_def calculateMetadata_def plainHost_def
      asPoint64_def Let_def timeKey_def Math_min64_def Math_max64_def arith64
      rd_big rd_neg_big rd_big_big e)
qed









text \<open>
  C8, as stated, fails: the difference \<open>max - min\<close> can overflow. From the prices
  \<open>-8.98846567431158e307\<close> and \<open>8.98846567431158e307\<close>, both doubles, with
  normalization requested, \<open>normalizeCrypto\<close> computes the range \<open>Infinity\<close>, which
  is positive, and the values \<open>0 / Infinity = 0\<close> and \<open>Infinity / Infinity = NaN\<close>:
  the second value is not between \<open>0\<close> and \<open>1\<close>.
\<close>

theorem normalization_overflow_counterexample:
  "normalize \<lparr> normalize = True \<rparr> \<and>
   isDouble big \<and> isDouble (- big) \<and>
   min64 (metadata64 (normalizeCrypto plainHost oppositePrices \<lparr> normalize = True \<rparr>)) =
     Finite (- big) \<and>
   max64 (metadata64 (normalizeCrypto plainHost oppositePrices \<lparr> normalize = True \<rparr>)) =
     Finite big \<and>
   lt64 (Finite (- big)) (Finite big) \<and>
   map originalValue64
     (dataPoints64 (normalizeCrypto plainHost oppositePrices \<lparr> normalize = True \<rparr>)) =
     [Finite (- big), Finite big] \<and>
   map value64
     (dataPoints64 (normalizeCrypto plainHost oppositePrices \<lparr> normalize = True \<rparr>)) =
     [Finite 0, NaN] \<and>
   \<not> le64 (Finite 0) NaN"
  using big_pos
  by (simp add: oppositePrices_result isDouble_def rd_big rd_neg_big lt64_Finite le64_def
      lt64_simps)

text \<open>
  C8, amended. When normalization is requested and the limited series is non-empty
  with a difference \<open>metadata.max - metadata.min\<close> that is positive and has not
  overflowed to \<open>Infinity\<close>, every value is
  \<open>(originalValue - min) / (max - min)\<close>, each operation rounded to a double, and
  lies between \<open>0\<close> and \<open>1\<close>; between doubles that difference is positive exactly
  when \<open>max > min\<close>. When \<open>max = min\<close> every value is the original value and is
  not \<open>NaN\<close> (the division is not reached). The points keep their timestamp,
  original value and label whatever the configuration. This holds of
  \<open>normalizeAirQuality\<close> for every payload of its type, of \<open>normalizeCrypto\<close> for
  every payload, and of the common end of the canonicalizers on any extracted
  points without a \<open>NaN\<close>.
\<close>

theorem normalization_min_max:
  "normalizationOutcome transformConfig (normalizeAirQuality host rawData transformConfig) \<and>
   normalizationOutcome transformConfig (normalizeCrypto host payload transformConfig) \<and>
   (collectedPoints collected \<longrightarrow>
      normalizationOutcome transformConfig (finishTimeSeries name u transformConfig collected)) \<and>
   (isDouble mn \<and> isDouble mx \<longrightarrow>
      (lt64 (Finite 0) (sub64 (Finite mx) (Finite mn)) \<longleftrightarrow> mn < mx)) \<and>
   map pointCore (dataPoints64 (normalizeAirQuality host rawData transformConfig)) =
     map pointCore (dataPoints64 (normalizeAirQuality host rawData otherConfig)) \<and>
   map pointCore (dataPoints64 (normalizeCrypto host payload transformConfig)) =
     map pointCore (dataPoints64 (normalizeCrypto host payload otherConfig))"
proof -
  have a: "map pointCore (dataPoints64 (normalizeAirQuality host rawData transformConfig)) =
     map pointCore (dataPoints64 (normalizeAirQuality host rawData otherConfig))"
    by (cases rawData) (simp_all add: normalizeAirQuality_def core_finish)
  have b: "map pointCore (dataPoints64 (normalizeCrypto host payload transformConfig)) =
     map pointCore (dataPoints64 (normalizeCrypto host payload otherConfig))"
    by (simp add: normalizeCrypto_def core_finish)
  show ?thesis
    using a b positive_range_iff [of mn mx]
    by (simp add: normalizeAirQuality_normalization normalizeCrypto_normalization
        finish_normalization)
qed

theorem normalization_min_max_witness:
  "normalize \<lparr> normalize = True \<rparr> \<and>
   dataPoints64 (normalizeAirQuality plainHost aqSample \<lparr> normalize = True \<rparr>) \<noteq> [] \<and>
   min64 (metadata64 (normalizeAirQuality plainHost aqSample \<lparr> normalize = True \<rparr>)) = Finite 2 \<and>
   max64 (metadata64 (normalizeAirQuality plainHost aqSample \<lparr> normalize = True \<rparr>)) = Finite 4 \<and>
   sub64 (Finite 4) (Finite 2) = Finite 2 \<and>
   lt64 (Finite 0) (Finite 2) \<and>
   isDouble 2 \<and> isDouble 4 \<and>
   map value64 (dataPoints64 (normalizeAirQuality plainHost aqSample \<lparr> normalize = True \<rparr>)) =
     [Finite 0, Finite 1] \<and>
   map originalValue64
     (dataPoints64 (normalizeAirQuality plainHost aqSample \<lparr> normalize = True \<rparr>)) =
     [Finite 2, Finite 4] \<and>
   max64 (metadata64 (normalizeAirQuality plainHost aqConstant \<lparr> normalize = True \<rparr>)) =
     min64 (metadata64 (normalizeAirQuality plainHost aqConstant \<lparr> normalize = True \<rparr>)) \<and>
   map value64 (dataPoints64 (normalizeAirQuality plainHost aqConstant \<lparr> normalize = True \<rparr>)) =
     [Finite 3, Finite 3] \<and>
   collectedPoints [pt64 2000 7, pt64 1000 5] \<and>
   normalizationOutcome \<lparr> normalize = True \<rparr>
     (finishTimeSeries ''Cryptocurrency'' ''USD'' \<lparr> normalize = True \<rparr>
        [pt64 2000 7, pt64 1000 5])"
proof -
  have c: "collectedPoints [pt64 2000 7, pt64 1000 5]"
    by (simp add: collectedPoints_def pt64_def)
  have d: "isDouble 2" "isDouble 4"
    by (simp_all add: isDouble_def arith64)
  note w1 = normalization_min_max
          [where transformConfig = "\<lparr> normalize = True \<rparr>" and host = plainHost
             and rawData = aqSample and payload = cryptoSample
             and collected = "[pt64 2000 7, pt64 1000 5]"
             and name = "''Cryptocurrency''" and u = "''USD''" and mn = 2 and mx = 4
             and otherConfig = "\<lparr> normalize = False \<rparr>"]
  note w2 = normalization_min_max
          [where transformConfig = "\<lparr> normalize = True \<rparr>" and host = plainHost
             and rawData = aqConstant and payload = cryptoSample
             and collected = "[pt64 2000 7, pt64 1000 5]"
             and name = "''Cryptocurrency''" and u = "''USD''" and mn = 2 and mx = 4
             and otherConfig = "\<lparr> normalize = False \<rparr>"]
  have a3: "normalizationOutcome \<lparr> normalize = True \<rparr>
     (finishTimeSeries ''Cryptocurrency'' ''USD'' \<lparr> normalize = True \<rparr>
        [pt64 2000 7, pt64 1000 5])"
    using w1 c by (elim conjE) (rule mp)
  have a4: "lt64 (Finite 0) (sub64 (Finite 4) (Finite 2))"
    using w2 d by (elim conjE) simp
  show ?thesis
    using a3 a4 c d
    by (simp add: aqSample_result aqConstant_result pt64_def arith64)
qed


end
